theory Spec2Isabelle
  imports Main "HOL-Library.Word"
begin

unbundle bit_operations_syntax

section \<open>Enumerations of the pairing test\<close>

text \<open>
  \<^verbatim>\<open>TestVariant\<close> is declared in \<^verbatim>\<open>le_pairing_test.py\<close>; the constructors are in the
  order of the class body, which is the order of \<^verbatim>\<open>list(TestVariant)\<close>.
\<close>

datatype TestVariant = ACCEPT | REJECT | REJECTED | DISCONNECTED

text \<open>
  \<^verbatim>\<open>constants.Direction\<close> is imported by the test; its members and their order are the
  ones the specification lists: OUTGOING, INCOMING.
\<close>

datatype Direction = OUTGOING | INCOMING

text \<open>The IO capabilities of the Security Manager, as the protocol stack names them.\<close>

datatype IoCapability =
    DISPLAY_OUTPUT_ONLY
  | DISPLAY_OUTPUT_AND_YES_NO_INPUT
  | KEYBOARD_INPUT_ONLY
  | NO_OUTPUT_NO_INPUT
  | DISPLAY_OUTPUT_AND_KEYBOARD_INPUT

text \<open>\<^verbatim>\<open>hci.OwnAddressType\<close>, aliased \<^verbatim>\<open>_AddressType\<close> by the test.\<close>

datatype OwnAddressType = PUBLIC | RANDOM | RESOLVABLE_OR_PUBLIC | RESOLVABLE_OR_RANDOM

text \<open>
  \<^verbatim>\<open>PairingDelegate.KeyDistribution\<close> is a flag enumeration over one octet; \<^verbatim>\<open>|\<close> is
  bitwise or.
\<close>

type_synonym KeyDistribution = "8 word"

definition DISTRIBUTE_ENCRYPTION_KEY :: KeyDistribution where
  "DISTRIBUTE_ENCRYPTION_KEY = 1"

definition DISTRIBUTE_IDENTITY_KEY :: KeyDistribution where
  "DISTRIBUTE_IDENTITY_KEY = 2"

definition DISTRIBUTE_SIGNING_KEY :: KeyDistribution where
  "DISTRIBUTE_SIGNING_KEY = 4"

definition DISTRIBUTE_LINK_KEY :: KeyDistribution where
  "DISTRIBUTE_LINK_KEY = 8"

section \<open>The scenario matrix\<close>

text \<open>
  A scenario is the tuple of arguments that the parameterized decorator passes to
  \<^verbatim>\<open>test_secure_pairing\<close>: variant, connection direction, pairing direction, REF IO
  capability, REF address type, key distribution.
\<close>

type_synonym ScenarioCase =
  "TestVariant \<times> Direction \<times> Direction \<times> IoCapability \<times> OwnAddressType \<times> KeyDistribution"

text \<open>
  \<^verbatim>\<open>itertools.product\<close> of six iterables: the rightmost one advances fastest.
\<close>

definition product6 ::
  "'a list \<Rightarrow> 'b list \<Rightarrow> 'c list \<Rightarrow> 'd list \<Rightarrow> 'e list \<Rightarrow> 'f list
     \<Rightarrow> ('a \<times> 'b \<times> 'c \<times> 'd \<times> 'e \<times> 'f) list" where
  "product6 as bs cs ds es fs =
     concat (map (\<lambda>a. concat (map (\<lambda>b. concat (map (\<lambda>c. concat (map (\<lambda>d.
       concat (map (\<lambda>e. map (\<lambda>f. (a, b, c, d, e, f)) fs) es)) ds)) cs)) bs)) as)"

definition variants :: "TestVariant list" where
  "variants = [ACCEPT, REJECT, REJECTED, DISCONNECTED]"

definition directions :: "Direction list" where
  "directions = [OUTGOING, INCOMING]"

definition io_capabilities :: "IoCapability list" where
  "io_capabilities = [NO_OUTPUT_NO_INPUT, DISPLAY_OUTPUT_AND_YES_NO_INPUT]"

definition address_types :: "OwnAddressType list" where
  "address_types = [RANDOM, PUBLIC]"

definition key_distributions :: "KeyDistribution list" where
  "key_distributions =
     [DISTRIBUTE_ENCRYPTION_KEY OR DISTRIBUTE_IDENTITY_KEY,
      DISTRIBUTE_ENCRYPTION_KEY OR DISTRIBUTE_IDENTITY_KEY OR DISTRIBUTE_LINK_KEY]"

definition full_product :: "ScenarioCase list" where
  "full_product =
     product6 variants directions directions io_capabilities address_types key_distributions"

text \<open>
  The two conditions of the generator expression, each as the source writes it inside
  \<^verbatim>\<open>not (...)\<close>.
\<close>

fun reject_with_notification :: "ScenarioCase \<Rightarrow> bool" where
  "reject_with_notification
     (variant, connection_direction, pairing_direction, ref_io_capability, rest) =
     (variant = REJECT \<and> ref_io_capability = KEYBOARD_INPUT_ONLY)"

fun incoming_connection_outgoing_pairing :: "ScenarioCase \<Rightarrow> bool" where
  "incoming_connection_outgoing_pairing
     (variant, connection_direction, pairing_direction, rest) =
     (connection_direction = INCOMING \<and> pairing_direction = OUTGOING)"

text \<open>
  The argument of \<^verbatim>\<open>navi_test_base.parameterized\<close>: the generator expression over the
  product, with its \<^verbatim>\<open>if\<close> clause.
\<close>

definition scenario_matrix :: "ScenarioCase list" where
  "scenario_matrix =
     [(variant, connection_direction, pairing_direction, ref_io_capability,
       ref_connection_address_type, smp_key_distribution).
        (variant, connection_direction, pairing_direction, ref_io_capability,
         ref_connection_address_type, smp_key_distribution) \<leftarrow> full_product,
        \<not> (variant = REJECT \<and> ref_io_capability = KEYBOARD_INPUT_ONLY)
        \<and> \<not> (connection_direction = INCOMING \<and> pairing_direction = OUTGOING)]"

section \<open>Errors, values and events\<close>

text \<open>
  The failure classes of the specification's taxonomy, with \<open>KeyError\<close> for a failed
  dictionary lookup and \<open>OtherError\<close> for any exception class outside the taxonomy.
\<close>

datatype error = Timeout | ProtocolError | Cancelled | AssertionFailure | KeyError | OtherError

text \<open>\<^verbatim>\<open>android_constants.BondState\<close>, aliased \<^verbatim>\<open>_BondState\<close>.\<close>

datatype BondState = NONE | BONDING | BONDED

text \<open>The pairing prompts that the DUT reports (\<^verbatim>\<open>android_constants.PairingVariant\<close>).\<close>

datatype AndroidPairingVariant =
  PIN | PASSKEY | PASSKEY_CONFIRMATION | CONSENT | DISPLAY_PASSKEY | DISPLAY_PIN | OOB_CONSENT

text \<open>
  The pairing prompts that the REF delegate reports (\<^verbatim>\<open>pairing_utils.PairingVariant\<close>):
  just-works, numeric-comparison, passkey-entry, consent.
\<close>

datatype PairingVariant = JUST_WORK | NUMERIC_COMPARISON | PASSKEY_ENTRY | CONSENT_REQUEST

text \<open>The payload of a prompt or of an answer: absent, a truth value or a number.\<close>

datatype pyval = PyNone | PyBool bool | PyInt int

record PairingEvent =
  ev_variant :: PairingVariant
  ev_arg :: pyval

record PairingRequest =
  pr_address :: string
  pr_variant :: AndroidPairingVariant
  pr_pin :: pyval

record BondStateChanged =
  bsc_address :: string
  bsc_state :: BondState

datatype Transport = BT_BR_EDR_TRANSPORT | BT_LE_TRANSPORT

record Connection =
  transport :: Transport
  peer_address :: string

record Advertisement =
  adv_address :: string
  adv_service_uuids :: "string list option"

definition TERMINATED_BOND_STATES :: "BondState list" where
  "TERMINATED_BOND_STATES = [BONDED, NONE]"

definition DEFAULT_STEP_TIMEOUT_SECONDS :: nat where
  "DEFAULT_STEP_TIMEOUT_SECONDS = 15"

section \<open>The harness state and its actions\<close>

text \<open>
  Every call that the test makes on one of the two endpoints is recorded, in program
  order, in the trace.
\<close>

datatype action =
    RefStartAdvertising OwnAddressType
  | RefStopAdvertising
  | DutCreateBond string OwnAddressType
  | DutConnectGattClient string OwnAddressType
  | DutStartLegacyAdvertiser string
  | DutStopAdvertiser string
  | RefStartScanning
  | RefStopScanning
  | RefConnect string OwnAddressType
  | RefGetRemoteLeFeatures
  | RefRequestPairing
  | RefPair
  | DutGetAllBondEvents
  | DutWaitPairingRequest
  | DutSetPairingConfirmation string bool
  | RefGetPairingEvent
  | RefPutAnswer PairingEvent
  | RefDisconnect
  | DutWaitBondState
  | RefAwaitPairTask
  | RefSetPairingDelegate IoCapability KeyDistribution KeyDistribution

text \<open>
  The state that the test threads through its calls: the trace, the random source behind
  \<^verbatim>\<open>uuid.uuid4()\<close> (the value of the \<open>n\<close>-th call, and the number of calls made so
  far), whether REF advertises and scans, the service identifiers of the DUT advertisers
  that are active, and the outbound queue \<^verbatim>\<open>pairing_answers\<close> of the REF delegate.
\<close>

record harness =
  trace :: "action list"
  uuid_stream :: "nat \<Rightarrow> string"
  uuid_drawn :: nat
  ref_advertising :: bool
  ref_scanning :: bool
  dut_advertisers :: "string list"
  pairing_answers :: "PairingEvent list"

text \<open>
  A step either raises (\<open>Inl\<close>) or returns a value (\<open>Inr\<close>); in both cases it leaves a
  state behind, as an exception leaves the effects made before it.
\<close>

type_synonym 'a step = "harness \<Rightarrow> (error + 'a) \<times> harness"

definition returnM :: "'a \<Rightarrow> 'a step" where
  "returnM x s = (Inr x, s)"

definition raiseM :: "error \<Rightarrow> 'a step" where
  "raiseM e s = (Inl e, s)"

definition bindM :: "'a step \<Rightarrow> ('a \<Rightarrow> 'b step) \<Rightarrow> 'b step" where
  "bindM m f s = (case m s of (Inl e, s') \<Rightarrow> (Inl e, s') | (Inr x, s') \<Rightarrow> f x s')"

definition emit :: "action \<Rightarrow> unit step" where
  "emit a s = (Inr (), s\<lparr>trace := trace s @ [a]\<rparr>)"

definition raise_if_error :: "error option \<Rightarrow> unit step" where
  "raise_if_error r = (case r of None \<Rightarrow> returnM () | Some e \<Rightarrow> raiseM e)"

text \<open>\<^verbatim>\<open>asserts.assert_equal\<close> and \<^verbatim>\<open>assertTrue\<close>.\<close>

definition assert_equal :: "'a \<Rightarrow> 'a \<Rightarrow> unit step" where
  "assert_equal actual expected = (if actual = expected then returnM () else raiseM AssertionFailure)"

definition assertTrue :: "bool \<Rightarrow> unit step" where
  "assertTrue b = (if b then returnM () else raiseM AssertionFailure)"

text \<open>
  Modelled from the spec: \<^verbatim>\<open>assert_not_timeout\<close> of \<^verbatim>\<open>navi_test_base\<close> is not among
  the sources. The awaited future is raced against the bound; \<open>awaited t\<close> is the value
  the future gets within \<open>t\<close> seconds, if any. ``On timeout, the operation fails with a
  Timeout error.''
\<close>

definition assert_not_timeout :: "nat \<Rightarrow> (nat \<Rightarrow> 'a option) \<Rightarrow> 'a step" where
  "assert_not_timeout timeout_seconds awaited =
     (case awaited timeout_seconds of None \<Rightarrow> raiseM Timeout | Some x \<Rightarrow> returnM x)"

text \<open>
  Modelled from the spec: \<^verbatim>\<open>wait_for_event\<close> of \<^verbatim>\<open>bl4a_api\<close> is not among the sources.
  \<open>events t\<close> are the events of the awaited class that the callback delivers within \<open>t\<close>
  seconds, in emission order; the wait returns the first one that satisfies the predicate
  and ``fails with Timeout if the predicate is never satisfied in time''.
\<close>

definition wait_for_event :: "('e \<Rightarrow> bool) \<Rightarrow> nat \<Rightarrow> (nat \<Rightarrow> 'e list) \<Rightarrow> 'e step" where
  "wait_for_event predicate timeout_seconds events =
     (case find predicate (events timeout_seconds) of
        None \<Rightarrow> raiseM Timeout
      | Some e \<Rightarrow> returnM e)"

text \<open>
  \<^verbatim>\<open>asyncio.wait_for(queue.get(), timeout)\<close>: the first item put on the queue within
  the bound, or a timeout.
\<close>

definition wait_for_queue_get :: "nat \<Rightarrow> (nat \<Rightarrow> 'e list) \<Rightarrow> 'e step" where
  "wait_for_queue_get timeout_seconds items =
     (case items timeout_seconds of [] \<Rightarrow> raiseM Timeout | e # _ \<Rightarrow> returnM e)"

text \<open>
  Modelled from the spec: the retry decorators of \<^verbatim>\<open>navi.utils.retry\<close> are not among the
  sources. ``On an exception whose type is in a configured retryable set, re-invokes the
  operation up to a configured maximum attempt count.'' \<open>retries\<close> is the number of
  attempts still allowed after this one, \<open>i\<close> the index of this attempt, and \<open>operation i\<close>
  the \<open>i\<close>-th invocation with the responses its environment gives to it.
\<close>

fun retry_on_exception :: "(error \<Rightarrow> bool) \<Rightarrow> nat \<Rightarrow> (nat \<Rightarrow> 'a step) \<Rightarrow> nat \<Rightarrow> 'a step" where
  "retry_on_exception retryable 0 operation i s = operation i s"
| "retry_on_exception retryable (Suc retries) operation i s =
     (case operation i s of
        (Inr x, s') \<Rightarrow> (Inr x, s')
      | (Inl e, s') \<Rightarrow>
          if retryable e then retry_on_exception retryable retries operation (Suc i) s'
          else (Inl e, s'))"

text \<open>
  A \<^verbatim>\<open>with\<close> scope around a body: the release runs when the body returns and when it
  raises, and the outcome of the body is the outcome of the scope.
\<close>

definition with_scope :: "(harness \<Rightarrow> harness) \<Rightarrow> 'a step \<Rightarrow> 'a step" where
  "with_scope release body s = (case body s of (r, s') \<Rightarrow> (r, release s'))"

section \<open>Connection establishment\<close>

text \<open>
  What the two endpoints answer during one attempt of \<^verbatim>\<open>_make_outgoing_connection\<close>: the
  value of \<^verbatim>\<open>createBond\<close>, the outcome of \<^verbatim>\<open>connect_gatt_client\<close>, and the
  \<^verbatim>\<open>connection\<close> events that REF emits within a given number of seconds while the
  watcher is registered.
\<close>

record outgoing_env =
  create_bond_result :: bool
  connect_gatt_result :: "error option"
  connection_events :: "nat \<Rightarrow> Connection list"

definition ref_start_advertising :: "OwnAddressType \<Rightarrow> unit step" where
  "ref_start_advertising own_address_type s =
     (Inr (), s\<lparr>trace := trace s @ [RefStartAdvertising own_address_type],
               ref_advertising := True\<rparr>)"

definition ref_stop_advertising :: "unit step" where
  "ref_stop_advertising s =
     (Inr (), s\<lparr>trace := trace s @ [RefStopAdvertising], ref_advertising := False\<rparr>)"

text \<open>
  The handler \<^verbatim>\<open>on_connection\<close> resolves the future with the first connection whose
  transport is LE.
\<close>

definition on_connection :: "Connection list \<Rightarrow> Connection option" where
  "on_connection events = find (\<lambda>connection. transport connection = BT_LE_TRANSPORT) events"

text \<open>
  One invocation of the body of \<^verbatim>\<open>_make_outgoing_connection\<close>. The logging calls and the
  list \<^verbatim>\<open>close_after_test\<close> have no part in the model.
\<close>

definition make_outgoing_connection_attempt ::
  "string \<Rightarrow> string \<Rightarrow> outgoing_env \<Rightarrow> OwnAddressType \<Rightarrow> bool \<Rightarrow> Connection step" where
  "make_outgoing_connection_attempt ref_random_address ref_address env
     ref_connection_address_type create_bond =
     (let ref_addr =
            (if ref_connection_address_type = RANDOM then ref_random_address else ref_address)
      in
      bindM (ref_start_advertising ref_connection_address_type) (\<lambda>_.
      bindM (if create_bond
             then bindM (emit (DutCreateBond ref_addr ref_connection_address_type)) (\<lambda>_.
                  assertTrue (create_bond_result env))
             else bindM (emit (DutConnectGattClient ref_addr ref_connection_address_type)) (\<lambda>_.
                  raise_if_error (connect_gatt_result env))) (\<lambda>_.
      bindM (assert_not_timeout DEFAULT_STEP_TIMEOUT_SECONDS
               (\<lambda>t. on_connection (connection_events env t))) (\<lambda>ref_dut_connection.
      bindM ref_stop_advertising (\<lambda>_.
      returnM ref_dut_connection)))))"

text \<open>
  What the endpoints answer during one attempt of \<^verbatim>\<open>_make_incoming_connection\<close>: the
  advertising reports that REF receives within a given number of seconds of scanning, the
  outcome of REF's \<^verbatim>\<open>connect\<close> to an address, and the outcome of the feature read.
\<close>

record incoming_env =
  advertising_reports :: "nat \<Rightarrow> Advertisement list"
  connect_result :: "string \<Rightarrow> error + Connection"
  remote_features_result :: "error option"

text \<open>\<^verbatim>\<open>str(uuid.uuid4())\<close>: the next value of the random source.\<close>

definition uuid4 :: "string step" where
  "uuid4 s = (Inr (uuid_stream s (uuid_drawn s)), s\<lparr>uuid_drawn := Suc (uuid_drawn s)\<rparr>)"

definition dut_start_legacy_advertiser :: "string \<Rightarrow> unit step" where
  "dut_start_legacy_advertiser service_uuid s =
     (Inr (), s\<lparr>trace := trace s @ [DutStartLegacyAdvertiser service_uuid],
               dut_advertisers := dut_advertisers s @ [service_uuid]\<rparr>)"

text \<open>
  Modelled from the spec: the advertiser object of \<^verbatim>\<open>bl4a_api\<close> is not among the
  sources. Leaving its \<^verbatim>\<open>with\<close> scope stops the advertiser (``scoped
  acquisition/release discipline'').
\<close>

definition dut_stop_advertiser :: "string \<Rightarrow> harness \<Rightarrow> harness" where
  "dut_stop_advertiser service_uuid s =
     s\<lparr>trace := trace s @ [DutStopAdvertiser service_uuid],
       dut_advertisers := remove1 service_uuid (dut_advertisers s)\<rparr>"

definition ref_start_scanning :: "unit step" where
  "ref_start_scanning s =
     (Inr (), s\<lparr>trace := trace s @ [RefStartScanning], ref_scanning := True\<rparr>)"

definition ref_stop_scanning :: "unit step" where
  "ref_stop_scanning s =
     (Inr (), s\<lparr>trace := trace s @ [RefStopScanning], ref_scanning := False\<rparr>)"

text \<open>
  The handler \<^verbatim>\<open>on_advertising_report\<close> resolves the future with the address of the first
  report whose list of 128-bit service identifiers is present, not empty, and holds the
  token.
\<close>

definition on_advertising_report :: "string \<Rightarrow> Advertisement list \<Rightarrow> string option" where
  "on_advertising_report service_uuid reports =
     map_option adv_address
       (find (\<lambda>adv. case adv_service_uuids adv of
                       None \<Rightarrow> False
                     | Some service_uuids \<Rightarrow> service_uuids \<noteq> [] \<and> service_uuid \<in> set service_uuids)
          reports)"

definition make_incoming_connection_attempt ::
  "incoming_env \<Rightarrow> OwnAddressType \<Rightarrow> Connection step" where
  "make_incoming_connection_attempt env ref_connection_address_type =
     bindM uuid4 (\<lambda>service_uuid.
     bindM (dut_start_legacy_advertiser service_uuid) (\<lambda>_.
     with_scope (dut_stop_advertiser service_uuid)
       (bindM ref_start_scanning (\<lambda>_.
        bindM (assert_not_timeout DEFAULT_STEP_TIMEOUT_SECONDS
                 (\<lambda>t. on_advertising_report service_uuid (advertising_reports env t))) (\<lambda>dut_addr.
        bindM ref_stop_scanning (\<lambda>_.
        bindM (emit (RefConnect dut_addr ref_connection_address_type)) (\<lambda>_.
        bindM (case connect_result env dut_addr of
                 Inl e \<Rightarrow> raiseM e
               | Inr connection \<Rightarrow> returnM connection) (\<lambda>ref_dut_connection.
        bindM (emit RefGetRemoteLeFeatures) (\<lambda>_.
        bindM (raise_if_error (remote_features_result env)) (\<lambda>_.
        returnM ref_dut_connection))))))))))"

section \<open>The pairing test\<close>

text \<open>
  The environment of one execution of \<^verbatim>\<open>test_secure_pairing\<close>: the two addresses of REF,
  the parameters of the retry decorator, the responses to each connection attempt, the
  events that the DUT callback and the REF delegate deliver to each wait, and the outcome
  with which REF's pairing task completes.
\<close>

record test_env =
  ref_random_address :: string
  ref_address :: string
  retryable :: "error \<Rightarrow> bool"
  max_retries :: nat
  outgoing :: "nat \<Rightarrow> outgoing_env"
  incoming :: "nat \<Rightarrow> incoming_env"
  first_pairing_requests :: "nat \<Rightarrow> PairingRequest list"
  second_pairing_requests :: "nat \<Rightarrow> PairingRequest list"
  ref_pairing_events :: "nat \<Rightarrow> PairingEvent list"
  bond_state_events :: "nat \<Rightarrow> BondStateChanged list"
  pair_task_outcome :: "error option"

text \<open>\<^verbatim>\<open>str.upper\<close> on the ASCII letters of an address.\<close>

definition upper_char :: "char \<Rightarrow> char" where
  "upper_char c =
     (case map_of (zip ''abcdefghijklmnopqrstuvwxyz'' ''ABCDEFGHIJKLMNOPQRSTUVWXYZ'') c of
        None \<Rightarrow> c
      | Some u \<Rightarrow> u)"

definition upper :: "string \<Rightarrow> string" where
  "upper s = map upper_char s"

text \<open>The two decorated methods: the body under \<^verbatim>\<open>retry.retry_on_exception()\<close>.\<close>

definition make_outgoing_connection :: "test_env \<Rightarrow> OwnAddressType \<Rightarrow> bool \<Rightarrow> Connection step" where
  "make_outgoing_connection env ref_connection_address_type create_bond =
     retry_on_exception (retryable env) (max_retries env)
       (\<lambda>i. make_outgoing_connection_attempt (ref_random_address env) (ref_address env)
               (outgoing env i) ref_connection_address_type create_bond) 0"

definition make_incoming_connection :: "test_env \<Rightarrow> OwnAddressType \<Rightarrow> Connection step" where
  "make_incoming_connection env ref_connection_address_type =
     retry_on_exception (retryable env) (max_retries env)
       (\<lambda>i. make_incoming_connection_attempt (incoming env i) ref_connection_address_type) 0"

text \<open>
  REF's pairing task, \<^verbatim>\<open>asyncio.create_task(ref_dut.pair())\<close>, is known to the test by
  the outcome it completes with: no error, or the exception that awaiting it raises.
\<close>

type_synonym PairTask = "error option"

definition put_nowait :: "PairingEvent \<Rightarrow> unit step" where
  "put_nowait answer s =
     (Inr (), s\<lparr>trace := trace s @ [RefPutAnswer answer],
               pairing_answers := pairing_answers s @ [answer]\<rparr>)"

text \<open>Connecting and pairing initiating stage.\<close>

definition connect_and_initiate ::
  "test_env \<Rightarrow> string \<Rightarrow> Direction \<Rightarrow> Direction \<Rightarrow> OwnAddressType
     \<Rightarrow> (Connection \<times> PairTask option) step" where
  "connect_and_initiate env ref_addr connection_direction pairing_direction
     ref_connection_address_type =
     (if connection_direction = OUTGOING then
        if pairing_direction = INCOMING then
          bindM (make_outgoing_connection env ref_connection_address_type False) (\<lambda>ref_dut.
          bindM (emit RefRequestPairing) (\<lambda>_.
          returnM (ref_dut, None)))
        else
          bindM (make_outgoing_connection env ref_connection_address_type True) (\<lambda>ref_dut.
          bindM (emit DutGetAllBondEvents) (\<lambda>_.
          returnM (ref_dut, None)))
      else
        bindM (make_incoming_connection env ref_connection_address_type) (\<lambda>ref_dut.
        if pairing_direction = INCOMING then
          bindM (emit RefPair) (\<lambda>_.
          returnM (ref_dut, Some (pair_task_outcome env)))
        else
          bindM (emit (DutCreateBond ref_addr ref_connection_address_type)) (\<lambda>_.
          returnM (ref_dut, None))))"

text \<open>Pairing stage: the prompts of the two sides.\<close>

definition wait_pairing_requests ::
  "test_env \<Rightarrow> string \<Rightarrow> bool \<Rightarrow> (PairingRequest \<times> PairingEvent) step" where
  "wait_pairing_requests env ref_addr need_double_confirmation =
     bindM (emit DutWaitPairingRequest) (\<lambda>_.
     bindM (wait_for_event (\<lambda>e. pr_address e = ref_addr) 15 (first_pairing_requests env))
       (\<lambda>dut_pairing_event.
     bindM (if need_double_confirmation then
              bindM (emit (DutSetPairingConfirmation ref_addr True)) (\<lambda>_.
              bindM (emit DutWaitPairingRequest) (\<lambda>_.
              wait_for_event (\<lambda>e. pr_address e = ref_addr) 15 (second_pairing_requests env)))
            else returnM dut_pairing_event) (\<lambda>dut_pairing_event.
     bindM (emit RefGetPairingEvent) (\<lambda>_.
     bindM (wait_for_queue_get 15 (ref_pairing_events env)) (\<lambda>ref_pairing_event.
     returnM (dut_pairing_event, ref_pairing_event))))))"

text \<open>
  The dictionary from REF's IO capability to the expected DUT prompt, the expected REF
  prompt and REF's answer; a capability that is not a key raises \<open>KeyError\<close>.
\<close>

definition expected_pairing ::
  "IoCapability \<Rightarrow> PairingRequest
     \<Rightarrow> (AndroidPairingVariant \<times> PairingVariant \<times> PairingEvent) option" where
  "expected_pairing ref_io_capability dut_pairing_event =
     (if ref_io_capability = NO_OUTPUT_NO_INPUT then
        Some (CONSENT, JUST_WORK, \<lparr>ev_variant = JUST_WORK, ev_arg = PyBool True\<rparr>)
      else if ref_io_capability = DISPLAY_OUTPUT_AND_YES_NO_INPUT then
        Some (PASSKEY_CONFIRMATION, NUMERIC_COMPARISON,
              \<lparr>ev_variant = NUMERIC_COMPARISON, ev_arg = pr_pin dut_pairing_event\<rparr>)
      else None)"

definition check_pairing_method ::
  "IoCapability \<Rightarrow> PairingRequest \<Rightarrow> PairingEvent \<Rightarrow> PairingEvent step" where
  "check_pairing_method ref_io_capability dut_pairing_event ref_pairing_event =
     (case expected_pairing ref_io_capability dut_pairing_event of
        None \<Rightarrow> raiseM KeyError
      | Some (expected_dut_pairing_variant, expected_ref_pairing_variant, ref_answer) \<Rightarrow>
          bindM (assert_equal (pr_variant dut_pairing_event) expected_dut_pairing_variant) (\<lambda>_.
          bindM (assert_equal (ev_variant ref_pairing_event) expected_ref_pairing_variant) (\<lambda>_.
          returnM ref_answer)))"

text \<open>The first \<^verbatim>\<open>match\<close>: the DUT handles the confirmation.\<close>

definition dut_handle_confirmation :: "TestVariant \<Rightarrow> string \<Rightarrow> unit step" where
  "dut_handle_confirmation variant ref_addr =
     (case variant of
        ACCEPT \<Rightarrow> emit (DutSetPairingConfirmation ref_addr True)
      | REJECTED \<Rightarrow> emit (DutSetPairingConfirmation ref_addr True)
      | REJECT \<Rightarrow> emit (DutSetPairingConfirmation ref_addr False)
      | DISCONNECTED \<Rightarrow> returnM ())"

text \<open>
  The second \<^verbatim>\<open>match\<close>, and the statement that follows it: REF handles the confirmation.
  In the REJECTED case the answer object is changed in place before it is put.
\<close>

definition ref_handle_confirmation :: "TestVariant \<Rightarrow> PairingEvent \<Rightarrow> unit step" where
  "ref_handle_confirmation variant ref_answer =
     bindM (case variant of
              ACCEPT \<Rightarrow> bindM (put_nowait ref_answer) (\<lambda>_. returnM ref_answer)
            | REJECT \<Rightarrow> bindM (put_nowait ref_answer) (\<lambda>_. returnM ref_answer)
            | DISCONNECTED \<Rightarrow> bindM (emit RefDisconnect) (\<lambda>_. returnM ref_answer)
            | REJECTED \<Rightarrow>
                if ev_variant ref_answer \<in> set [JUST_WORK, NUMERIC_COMPARISON]
                then returnM (ref_answer\<lparr>ev_arg := PyBool False\<rparr>)
                else returnM (ref_answer\<lparr>ev_arg := PyNone\<rparr>)) (\<lambda>ref_answer.
     put_nowait ref_answer)"

text \<open>The final state of the DUT.\<close>

definition check_final_state :: "test_env \<Rightarrow> TestVariant \<Rightarrow> unit step" where
  "check_final_state env variant =
     (let expect_state = (if variant = ACCEPT then BONDED else NONE) in
      bindM (emit DutWaitBondState) (\<lambda>_.
      bindM (wait_for_event (\<lambda>e. bsc_state e \<in> set TERMINATED_BOND_STATES) 15
               (bond_state_events env)) (\<lambda>event.
      assert_equal (bsc_state event) expect_state)))"

text \<open>
  The last block: \<^verbatim>\<open>contextlib.suppress\<close> swallows the exception of the awaited task
  when its class is among the expected ones, and lets any other one through.
\<close>

definition expected_errors :: "TestVariant \<Rightarrow> error list" where
  "expected_errors variant =
     (case variant of
        REJECT \<Rightarrow> [ProtocolError]
      | REJECTED \<Rightarrow> [ProtocolError]
      | DISCONNECTED \<Rightarrow> [Cancelled]
      | ACCEPT \<Rightarrow> [])"

definition wait_pairing_complete :: "TestVariant \<Rightarrow> PairTask option \<Rightarrow> unit step" where
  "wait_pairing_complete variant pair_task =
     (case pair_task of
        None \<Rightarrow> returnM ()
      | Some outcome \<Rightarrow>
          bindM (emit RefAwaitPairTask) (\<lambda>_.
          case outcome of
            None \<Rightarrow> returnM ()
          | Some e \<Rightarrow> if e \<in> set (expected_errors variant) then returnM () else raiseM e))"

text \<open>
  One execution of the body of \<^verbatim>\<open>test_secure_pairing\<close>, in the order of its stages.
\<close>

definition test_secure_pairing ::
  "test_env \<Rightarrow> TestVariant \<Rightarrow> Direction \<Rightarrow> Direction \<Rightarrow> IoCapability \<Rightarrow> OwnAddressType
     \<Rightarrow> KeyDistribution \<Rightarrow> unit step" where
  "test_secure_pairing env variant connection_direction pairing_direction ref_io_capability
     ref_connection_address_type smp_key_distribution =
     (let ref_addr =
            upper (if ref_connection_address_type = RANDOM then ref_random_address env
                   else ref_address env);
          need_double_confirmation =
            (connection_direction = OUTGOING \<and> pairing_direction = INCOMING)
      in
      bindM (emit (RefSetPairingDelegate ref_io_capability smp_key_distribution
                     smp_key_distribution)) (\<lambda>_.
      bindM (connect_and_initiate env ref_addr connection_direction pairing_direction
               ref_connection_address_type) (\<lambda>(ref_dut, pair_task).
      bindM (wait_pairing_requests env ref_addr need_double_confirmation)
        (\<lambda>(dut_pairing_event, ref_pairing_event).
      bindM (check_pairing_method ref_io_capability dut_pairing_event ref_pairing_event)
        (\<lambda>ref_answer.
      bindM (dut_handle_confirmation variant ref_addr) (\<lambda>_.
      bindM (ref_handle_confirmation variant ref_answer) (\<lambda>_.
      bindM (check_final_state env variant) (\<lambda>_.
      wait_pairing_complete variant pair_task))))))))"

text \<open>A scenario of the matrix, run as the parameterized test runs it.\<close>

fun run_case :: "test_env \<Rightarrow> ScenarioCase \<Rightarrow> unit step" where
  "run_case env (variant, connection_direction, pairing_direction, ref_io_capability,
                 ref_connection_address_type, smp_key_distribution) =
     test_secure_pairing env variant connection_direction pairing_direction ref_io_capability
       ref_connection_address_type smp_key_distribution"

section \<open>Extended HCI packets\<close>

type_synonym bytes = "8 word list"

text \<open>
  A field of a packet dataclass: its name and the first item of the metadata of its
  annotated type, which is the field type that the HCI object model understands.
\<close>

record 'ft dataclass_field =
  field_name :: string
  field_metadata :: 'ft

text \<open>A subclass of \<^verbatim>\<open>_HciPacket\<close>: its \<^verbatim>\<open>PARSE_OFFSET\<close> and its declared fields.\<close>

record 'ft packet_class =
  PARSE_OFFSET :: nat
  dataclass_fields :: "'ft dataclass_field list"

text \<open>
  An instance: its class and the values of its fields, in declaration order (field names
  of a dataclass are distinct, so reading an attribute by name reads the value that the
  constructor got at that position).
\<close>

record ('ft, 'v) hci_packet =
  packet_cls :: "'ft packet_class"
  field_values :: "'v list"

text \<open>
  The classes declared in the source: \<^verbatim>\<open>_HciPacket\<close> and \<^verbatim>\<open>Command\<close> parse from offset
  0, \<^verbatim>\<open>VendorEvent\<close> from offset 1.
\<close>

definition Command :: "'ft dataclass_field list \<Rightarrow> 'ft packet_class" where
  "Command fs = \<lparr>PARSE_OFFSET = 0, dataclass_fields = fs\<rparr>"

definition VendorEvent :: "'ft dataclass_field list \<Rightarrow> 'ft packet_class" where
  "VendorEvent fs = \<lparr>PARSE_OFFSET = 1, dataclass_fields = fs\<rparr>"

text \<open>
  The loop of \<^verbatim>\<open>from_parameters\<close>. The parser of one field,
  \<^verbatim>\<open>hci.HCI_Object.parse_field\<close>, belongs to the protocol stack and is a parameter: it
  returns the value and the size it consumed, or raises (\<open>None\<close>).
\<close>

fun parse_fields ::
  "(bytes \<Rightarrow> nat \<Rightarrow> 'ft \<Rightarrow> ('v \<times> nat) option) \<Rightarrow> bytes \<Rightarrow> nat \<Rightarrow> 'ft dataclass_field list
     \<Rightarrow> 'v list option" where
  "parse_fields parse_field parameters offset [] = Some []"
| "parse_fields parse_field parameters offset (field # more_fields) =
     (case parse_field parameters offset (field_metadata field) of
        None \<Rightarrow> None
      | Some (value, field_size) \<Rightarrow>
          (case parse_fields parse_field parameters (offset + field_size) more_fields of
             None \<Rightarrow> None
           | Some values \<Rightarrow> Some (value # values)))"

definition from_parameters ::
  "(bytes \<Rightarrow> nat \<Rightarrow> 'ft \<Rightarrow> ('v \<times> nat) option) \<Rightarrow> 'ft packet_class \<Rightarrow> bytes
     \<Rightarrow> ('ft, 'v) hci_packet option" where
  "from_parameters parse_field cls parameters =
     map_option (\<lambda>values. \<lparr>packet_cls = cls, field_values = values\<rparr>)
       (parse_fields parse_field parameters (PARSE_OFFSET cls) (dataclass_fields cls))"

text \<open>The property \<^verbatim>\<open>fields\<close>.\<close>

definition fields_of :: "('ft, 'v) hci_packet \<Rightarrow> (string \<times> 'ft) list" where
  "fields_of packet =
     map (\<lambda>field. (field_name field, field_metadata field)) (dataclass_fields (packet_cls packet))"

text \<open>
  The property \<^verbatim>\<open>parameters\<close>; the serializer of one field,
  \<^verbatim>\<open>hci.HCI_Object.serialize_field\<close>, is a parameter as well.
\<close>

definition parameters :: "('v \<Rightarrow> 'ft \<Rightarrow> bytes) \<Rightarrow> ('ft, 'v) hci_packet \<Rightarrow> bytes" where
  "parameters serialize_field packet =
     concat (map (\<lambda>(value, (field_name, field_type)). serialize_field value field_type)
               (zip (field_values packet) (fields_of packet)))"

text \<open>
  The number of bytes that the fields consume when they are parsed from an offset, where
  parsing succeeds.
\<close>

fun parsed_size ::
  "(bytes \<Rightarrow> nat \<Rightarrow> 'ft \<Rightarrow> ('v \<times> nat) option) \<Rightarrow> bytes \<Rightarrow> nat \<Rightarrow> 'ft dataclass_field list
     \<Rightarrow> nat" where
  "parsed_size parse_field data offset [] = 0"
| "parsed_size parse_field data offset (field # more_fields) =
     (case parse_field data offset (field_metadata field) of
        None \<Rightarrow> 0
      | Some (value, field_size) \<Rightarrow>
          field_size + parsed_size parse_field data (offset + field_size) more_fields)"

text \<open>
  The field codec gives back what it consumed along the decoding of an input: at each
  offset at which \<^verbatim>\<open>from_parameters\<close> parses a field, the serializer applied to the parsed
  value returns the bytes that the parser consumed there. Nothing is asked of the codec
  at any other offset.
\<close>

fun decoded_fields_roundtrip ::
  "(bytes \<Rightarrow> nat \<Rightarrow> 'ft \<Rightarrow> ('v \<times> nat) option) \<Rightarrow> ('v \<Rightarrow> 'ft \<Rightarrow> bytes) \<Rightarrow> bytes \<Rightarrow> nat
     \<Rightarrow> 'ft dataclass_field list \<Rightarrow> bool" where
  "decoded_fields_roundtrip parse_field serialize_field data offset [] = True"
| "decoded_fields_roundtrip parse_field serialize_field data offset (field # more_fields) =
     (case parse_field data offset (field_metadata field) of
        None \<Rightarrow> True
      | Some (value, field_size) \<Rightarrow>
          serialize_field value (field_metadata field) = take field_size (drop offset data)
          \<and> decoded_fields_roundtrip parse_field serialize_field data (offset + field_size)
                more_fields)"

text \<open>
  An example codec: a field whose type is the number \<open>k\<close> holds \<open>k\<close> octets. The parser
  reads them at the offset and fails when the input ends before them; the serializer
  writes them. The example class is a vendor event with a field of one octet followed by
  a field of two octets.
\<close>

definition parse_octets :: "bytes \<Rightarrow> nat \<Rightarrow> nat \<Rightarrow> (bytes \<times> nat) option" where
  "parse_octets data offset field_type =
     (if offset + field_type \<le> length data
      then Some (take field_type (drop offset data), field_type) else None)"

definition serialize_octets :: "bytes \<Rightarrow> nat \<Rightarrow> bytes" where
  "serialize_octets value field_type = value"

definition example_event :: "nat packet_class" where
  "example_event =
     VendorEvent [\<lparr>field_name = ''status'', field_metadata = 1\<rparr>,
                  \<lparr>field_name = ''handle'', field_metadata = 2\<rparr>]"

section \<open>Example environments\<close>

text \<open>
  An initial state: nothing has happened, neither side advertises or scans, and the
  random source yields three different tokens.
\<close>

definition example_uuids :: "nat \<Rightarrow> string" where
  "example_uuids n = (if n = 0 then ''uuid-a'' else if n = 1 then ''uuid-b'' else ''uuid-c'')"

definition initial_harness :: harness where
  "initial_harness =
     \<lparr>trace = [], uuid_stream = example_uuids, uuid_drawn = 0, ref_advertising = False,
      ref_scanning = False, dut_advertisers = [], pairing_answers = []\<rparr>"

definition example_link :: Connection where
  "example_link = \<lparr>transport = BT_LE_TRANSPORT, peer_address = ''AA:BB:CC:DD:EE:FF''\<rparr>"

definition classic_link :: Connection where
  "classic_link = \<lparr>transport = BT_BR_EDR_TRANSPORT, peer_address = ''AA:BB:CC:DD:EE:FF''\<rparr>"

text \<open>
  An outgoing attempt in which REF sees a classic connection and then the LE connection
  within 15 seconds, and one in which it sees nothing.
\<close>

definition outgoing_ok :: outgoing_env where
  "outgoing_ok =
     \<lparr>create_bond_result = True, connect_gatt_result = None,
      connection_events = (\<lambda>t. if 15 \<le> t then [classic_link, example_link] else [])\<rparr>"

definition outgoing_silent :: outgoing_env where
  "outgoing_silent =
     \<lparr>create_bond_result = True, connect_gatt_result = None, connection_events = (\<lambda>t. [])\<rparr>"

text \<open>
  An incoming attempt in which REF receives no report, and one in which it receives a
  report without service identifiers and then the report of the DUT, which carries the
  given token.
\<close>

definition incoming_silent :: incoming_env where
  "incoming_silent =
     \<lparr>advertising_reports = (\<lambda>t. []), connect_result = (\<lambda>a. Inr example_link),
      remote_features_result = None\<rparr>"

definition incoming_ok :: "string \<Rightarrow> incoming_env" where
  "incoming_ok token =
     \<lparr>advertising_reports =
        (\<lambda>t. [\<lparr>adv_address = ''11:22:33:44:55:66'', adv_service_uuids = None\<rparr>,
              \<lparr>adv_address = ''AA:BB:CC:DD:EE:FF'', adv_service_uuids = Some [token]\<rparr>]),
      connect_result = (\<lambda>a. Inr example_link),
      remote_features_result = None\<rparr>"

text \<open>
  An environment in which both endpoints behave as the scenario expects: every incoming
  connection times out once and succeeds on the second attempt, the DUT reports the prompt
  that belongs to REF's IO capability (a stale request of another peer comes first), the
  final bond state is the one of the variant, and REF's pairing task ends with the error
  of the variant.
\<close>

definition dut_prompt :: "IoCapability \<Rightarrow> AndroidPairingVariant" where
  "dut_prompt io = (if io = NO_OUTPUT_NO_INPUT then CONSENT else PASSKEY_CONFIRMATION)"

definition ref_prompt :: "IoCapability \<Rightarrow> PairingEvent" where
  "ref_prompt io =
     (if io = NO_OUTPUT_NO_INPUT then \<lparr>ev_variant = JUST_WORK, ev_arg = PyNone\<rparr>
      else \<lparr>ev_variant = NUMERIC_COMPARISON, ev_arg = PyInt 123456\<rparr>)"

definition example_env :: "TestVariant \<Rightarrow> IoCapability \<Rightarrow> test_env" where
  "example_env variant io =
     \<lparr>ref_random_address = ''F0:F1:F2:F3:F4:F5'',
      ref_address = ''00:11:22:33:44:55'',
      retryable = (\<lambda>e. e = Timeout),
      max_retries = 2,
      outgoing = (\<lambda>i. outgoing_ok),
      incoming = (\<lambda>i. if i = 0 then incoming_silent else incoming_ok (example_uuids i)),
      first_pairing_requests =
        (\<lambda>t. [\<lparr>pr_address = ''00:00:00:00:00:01'', pr_variant = PIN, pr_pin = PyNone\<rparr>,
              \<lparr>pr_address = ''F0:F1:F2:F3:F4:F5'', pr_variant = dut_prompt io,
               pr_pin = PyInt 111111\<rparr>]),
      second_pairing_requests =
        (\<lambda>t. [\<lparr>pr_address = ''F0:F1:F2:F3:F4:F5'', pr_variant = dut_prompt io,
               pr_pin = PyInt 123456\<rparr>]),
      ref_pairing_events = (\<lambda>t. [ref_prompt io]),
      bond_state_events =
        (\<lambda>t. [\<lparr>bsc_address = ''F0:F1:F2:F3:F4:F5'', bsc_state = BONDING\<rparr>,
              \<lparr>bsc_address = ''F0:F1:F2:F3:F4:F5'',
               bsc_state = (if variant = ACCEPT then BONDED else NONE)\<rparr>]),
      pair_task_outcome =
        (case variant of
           ACCEPT \<Rightarrow> None
         | REJECT \<Rightarrow> Some ProtocolError
         | REJECTED \<Rightarrow> Some ProtocolError
         | DISCONNECTED \<Rightarrow> Some Cancelled)\<rparr>"

section \<open>What a run observes\<close>

text \<open>
  The address that the test compares the DUT events with, the prompts that the waits of
  the pairing stage return, and the bond state that the final wait returns, read off the
  environment.
\<close>

definition ref_addr_of :: "test_env \<Rightarrow> OwnAddressType \<Rightarrow> string" where
  "ref_addr_of env ref_connection_address_type =
     upper (if ref_connection_address_type = RANDOM then ref_random_address env
            else ref_address env)"

definition need_double_confirmation_of :: "Direction \<Rightarrow> Direction \<Rightarrow> bool" where
  "need_double_confirmation_of connection_direction pairing_direction =
     (connection_direction = OUTGOING \<and> pairing_direction = INCOMING)"

definition first_dut_pairing_event :: "test_env \<Rightarrow> string \<Rightarrow> PairingRequest option" where
  "first_dut_pairing_event env ref_addr =
     find (\<lambda>e. pr_address e = ref_addr) (first_pairing_requests env 15)"

definition second_dut_pairing_event :: "test_env \<Rightarrow> string \<Rightarrow> PairingRequest option" where
  "second_dut_pairing_event env ref_addr =
     find (\<lambda>e. pr_address e = ref_addr) (second_pairing_requests env 15)"

definition ref_pairing_event_of :: "test_env \<Rightarrow> PairingEvent option" where
  "ref_pairing_event_of env =
     (case ref_pairing_events env 15 of [] \<Rightarrow> None | e # _ \<Rightarrow> Some e)"

definition terminal_bond_state :: "test_env \<Rightarrow> BondState option" where
  "terminal_bond_state env =
     map_option bsc_state
       (find (\<lambda>e. bsc_state e \<in> set TERMINATED_BOND_STATES) (bond_state_events env 15))"

text \<open>The actions of the pairing stage on the DUT side.\<close>

fun is_dut_pairing_action :: "action \<Rightarrow> bool" where
  "is_dut_pairing_action DutWaitPairingRequest = True"
| "is_dut_pairing_action (DutSetPairingConfirmation address accept) = True"
| "is_dut_pairing_action other = False"

text \<open>The actions of a connection attempt: none of them belongs to the pairing stage.\<close>

fun is_connection_action :: "action \<Rightarrow> bool" where
  "is_connection_action (RefStartAdvertising own_address_type) = True"
| "is_connection_action RefStopAdvertising = True"
| "is_connection_action (DutCreateBond address own_address_type) = True"
| "is_connection_action (DutConnectGattClient address own_address_type) = True"
| "is_connection_action (DutStartLegacyAdvertiser service_uuid) = True"
| "is_connection_action (DutStopAdvertiser service_uuid) = True"
| "is_connection_action RefStartScanning = True"
| "is_connection_action RefStopScanning = True"
| "is_connection_action (RefConnect address own_address_type) = True"
| "is_connection_action RefGetRemoteLeFeatures = True"
| "is_connection_action other = False"



section \<open>The size and the content of the scenario matrix\<close>

lemma concat_guard_filter:
  "concat (map (\<lambda>x. if P x then [x] else []) xs) = filter P xs"
  by (induction xs) simp_all

lemma scenario_matrix_filter:
  "scenario_matrix =
     filter (\<lambda>c. \<not> reject_with_notification c \<and> \<not> incoming_connection_outgoing_pairing c)
       full_product"
proof -
  have "(\<lambda>(variant, connection_direction, pairing_direction, ref_io_capability,
           ref_connection_address_type, smp_key_distribution).
          if \<not> (variant = REJECT \<and> ref_io_capability = KEYBOARD_INPUT_ONLY)
             \<and> \<not> (connection_direction = INCOMING \<and> pairing_direction = OUTGOING)
          then [(variant, connection_direction, pairing_direction, ref_io_capability,
                 ref_connection_address_type, smp_key_distribution)]
          else [])
        = (\<lambda>c. if \<not> reject_with_notification c \<and> \<not> incoming_connection_outgoing_pairing c
               then [c] else [])"
    by (auto simp: fun_eq_iff)
  then show ?thesis
    unfolding scenario_matrix_def by (simp add: concat_guard_filter)
qed

lemma length_concat_map_const:
  "(\<And>x. x \<in> set xs \<Longrightarrow> length (f x) = n) \<Longrightarrow> length (concat (map f xs)) = length xs * n"
  by (induction xs) simp_all

lemma length_product6:
  "length (product6 as bs cs ds es fs) =
     length as * (length bs * (length cs * (length ds * (length es * length fs))))"
  unfolding product6_def
  by (simp add: length_concat_map_const)

lemma set_product6:
  "set (product6 as bs cs ds es fs) =
     set as \<times> set bs \<times> set cs \<times> set ds \<times> set es \<times> set fs"
  unfolding product6_def by (auto simp: image_iff)

lemmas matrix_lists = variants_def directions_def io_capabilities_def address_types_def
  key_distributions_def DISTRIBUTE_ENCRYPTION_KEY_def DISTRIBUTE_IDENTITY_KEY_def
  DISTRIBUTE_LINK_KEY_def

lemma distinct_full_product: "distinct full_product"
  by (simp add: full_product_def product6_def matrix_lists)

lemma length_filter_complement:
  "length (filter (\<lambda>x. \<not> P x) xs) = length xs - length (filter P xs)"
  using sum_length_filter_compl [of P xs] by simp

text \<open>
  Claim C4. The executed matrix is the full cross product of the six parameter lists, in
  cross-product order, without the combinations that match one of the two exclusion
  predicates, and with nothing else removed: it is the product filtered by the negation of
  both predicates, its size is the size of the product minus the number of tuples that
  match either predicate, and the product holds every combination exactly once
  (128 tuples, 32 of them excluded, 96 executed).
\<close>

theorem scenario_matrix_exclusions:
  "scenario_matrix =
     filter (\<lambda>c. \<not> reject_with_notification c \<and> \<not> incoming_connection_outgoing_pairing c)
       full_product
   \<and> length scenario_matrix =
       length full_product
       - length (filter (\<lambda>c. reject_with_notification c \<or> incoming_connection_outgoing_pairing c)
                   full_product)
   \<and> set full_product =
       set variants \<times> set directions \<times> set directions \<times> set io_capabilities
       \<times> set address_types \<times> set key_distributions
   \<and> distinct full_product
   \<and> length full_product = 128
   \<and> length (filter (\<lambda>c. reject_with_notification c \<or> incoming_connection_outgoing_pairing c)
                full_product) = 32
   \<and> length scenario_matrix = 96"
proof -
  have m: "scenario_matrix =
     filter (\<lambda>c. \<not> (reject_with_notification c \<or> incoming_connection_outgoing_pairing c))
       full_product"
    by (simp add: scenario_matrix_filter)
  have len: "length scenario_matrix =
       length full_product
       - length (filter (\<lambda>c. reject_with_notification c \<or> incoming_connection_outgoing_pairing c)
                   full_product)"
    unfolding m by (rule length_filter_complement)
  have full: "length full_product = 128"
    by (simp add: full_product_def length_product6 matrix_lists)
  have excl: "length (filter (\<lambda>c. reject_with_notification c \<or> incoming_connection_outgoing_pairing c)
                full_product) = 32"
    by (simp add: full_product_def product6_def matrix_lists)
  have s: "set full_product =
       set variants \<times> set directions \<times> set directions \<times> set io_capabilities
       \<times> set address_types \<times> set key_distributions"
    by (simp only: full_product_def set_product6)
  show ?thesis
    using len full excl s distinct_full_product scenario_matrix_filter by simp
qed

section \<open>Round trip of the extended HCI packets\<close>

lemma parse_fields_length:
  "parse_fields pf data offset fs = Some vs \<Longrightarrow> length vs = length fs"
proof (induction fs arbitrary: offset vs)
  case Nil
  then show ?case by simp
next
  case (Cons f fs)
  then show ?case by (auto split: option.splits)
qed

lemma parse_fields_roundtrip:
  assumes "parse_fields pf data offset fs = Some vs"
    and "decoded_fields_roundtrip pf sf data offset fs"
  shows "concat (map (\<lambda>(v, (n, ft)). sf v ft)
                  (zip vs (map (\<lambda>f. (field_name f, field_metadata f)) fs)))
         = take (parsed_size pf data offset fs) (drop offset data)"
  using assms
proof (induction fs arbitrary: offset vs)
  case Nil
  then show ?case by simp
next
  case (Cons f fs)
  from Cons.prems(1) obtain v n vs' where
    p: "pf data offset (field_metadata f) = Some (v, n)" and
    r: "parse_fields pf data (offset + n) fs = Some vs'" and
    vs: "vs = v # vs'"
    by (auto split: option.splits)
  from Cons.prems(2) p have h: "sf v (field_metadata f) = take n (drop offset data)"
    and law: "decoded_fields_roundtrip pf sf data (offset + n) fs"
    by simp_all
  from Cons.IH [OF r law]
  have ih: "concat (map (\<lambda>(v, (n, ft)). sf v ft)
                  (zip vs' (map (\<lambda>f. (field_name f, field_metadata f)) fs)))
         = take (parsed_size pf data (offset + n) fs) (drop (offset + n) data)" .
  have "drop (offset + n) data = drop n (drop offset data)"
    by (simp add: add.commute)
  then show ?case
    using p h ih vs by (simp add: take_add)
qed

text \<open>
  Claim C10, as amended. \<^verbatim>\<open>from_parameters\<close> decodes the declared fields in declaration
  order from \<^verbatim>\<open>PARSE_OFFSET\<close> on, one value for each field, and \<^verbatim>\<open>parameters\<close> serializes
  them again in the same order. When the serializer of each decoded field gives back the
  bytes that its parser consumed, encoding a decoded packet reproduces the input from
  \<^verbatim>\<open>PARSE_OFFSET\<close> up to the end of the last decoded field; this is the whole input after
  \<^verbatim>\<open>PARSE_OFFSET\<close> exactly when the fields consume all of it.
\<close>

theorem from_parameters_roundtrip:
  assumes "from_parameters parse_field cls data = Some packet"
    and "decoded_fields_roundtrip parse_field serialize_field data (PARSE_OFFSET cls)
           (dataclass_fields cls)"
  shows "packet_cls packet = cls
       \<and> length (field_values packet) = length (dataclass_fields cls)
       \<and> parameters serialize_field packet =
           take (parsed_size parse_field data (PARSE_OFFSET cls) (dataclass_fields cls))
             (drop (PARSE_OFFSET cls) data)
       \<and> (parameters serialize_field packet = drop (PARSE_OFFSET cls) data
            \<longleftrightarrow> length data \<le> PARSE_OFFSET cls
                  + parsed_size parse_field data (PARSE_OFFSET cls) (dataclass_fields cls))"
proof -
  from assms(1) obtain vs where
    vs: "parse_fields parse_field data (PARSE_OFFSET cls) (dataclass_fields cls) = Some vs" and
    pk: "packet = \<lparr>packet_cls = cls, field_values = vs\<rparr>"
    by (auto simp: from_parameters_def)
  have enc: "parameters serialize_field packet =
           take (parsed_size parse_field data (PARSE_OFFSET cls) (dataclass_fields cls))
             (drop (PARSE_OFFSET cls) data)"
    using parse_fields_roundtrip [OF vs assms(2)]
    by (simp add: parameters_def fields_of_def pk)
  have whole: "take n (drop k data) = drop k data \<longleftrightarrow> length data \<le> k + n" for n k
    by auto
  from parse_fields_length [OF vs] pk enc whole show ?thesis
    by simp
qed

theorem from_parameters_roundtrip_witness:
  "from_parameters parse_octets example_event [255, 7, 1, 2]
       = Some \<lparr>packet_cls = example_event, field_values = [[7], [1, 2]]\<rparr>
   \<and> decoded_fields_roundtrip parse_octets serialize_octets [255, 7, 1, 2]
        (PARSE_OFFSET example_event) (dataclass_fields example_event)
   \<and> parameters serialize_octets
        \<lparr>packet_cls = example_event, field_values = [[7], [1, 2]]\<rparr> = [7, 1, 2]
   \<and> drop (PARSE_OFFSET example_event) [255, 7, 1, 2 :: 8 word] = [7, 1, 2]"
proof -
  have dec: "from_parameters parse_octets example_event [255, 7, 1, 2]
       = Some \<lparr>packet_cls = example_event, field_values = [[7], [1, 2]]\<rparr>"
    by (simp add: from_parameters_def example_event_def VendorEvent_def parse_octets_def)
  have law: "decoded_fields_roundtrip parse_octets serialize_octets [255, 7, 1, 2]
        (PARSE_OFFSET example_event) (dataclass_fields example_event)"
    by (simp add: example_event_def VendorEvent_def parse_octets_def serialize_octets_def)
  have consumed: "parsed_size parse_octets [255, 7, 1, 2] (PARSE_OFFSET example_event)
        (dataclass_fields example_event) = 3"
    by (simp add: example_event_def VendorEvent_def parse_octets_def)
  have offset: "PARSE_OFFSET example_event = 1"
    by (simp add: example_event_def VendorEvent_def)
  from from_parameters_roundtrip [OF dec law] dec law consumed offset
  show ?thesis by simp
qed

text \<open>
  The claim as it was stated fails when bytes follow the last declared field, also for a
  codec that gives back what it consumed: the example event decodes the five octets
  \<open>255, 7, 1, 2, 9\<close> and encodes to \<open>7, 1, 2\<close>, not to \<open>7, 1, 2, 9\<close>.
\<close>

theorem from_parameters_trailing_counterexample:
  "from_parameters parse_octets example_event [255, 7, 1, 2, 9]
       = Some \<lparr>packet_cls = example_event, field_values = [[7], [1, 2]]\<rparr>
   \<and> decoded_fields_roundtrip parse_octets serialize_octets [255, 7, 1, 2, 9]
        (PARSE_OFFSET example_event) (dataclass_fields example_event)
   \<and> parameters serialize_octets
        \<lparr>packet_cls = example_event, field_values = [[7], [1, 2]]\<rparr> = [7, 1, 2]
   \<and> drop (PARSE_OFFSET example_event) [255, 7, 1, 2, 9 :: 8 word] = [7, 1, 2, 9]
   \<and> parameters serialize_octets
        \<lparr>packet_cls = example_event, field_values = [[7], [1, 2]]\<rparr>
       \<noteq> drop (PARSE_OFFSET example_event) [255, 7, 1, 2, 9]"
  by (simp add: from_parameters_def example_event_def VendorEvent_def parse_octets_def
        parameters_def fields_of_def serialize_octets_def)

section \<open>Runs of the pairing test\<close>

text \<open>
  A step that returns went through each of its parts; these rules take a returning
  composition apart.
\<close>

lemma bindM_Inr:
  "bindM m f s = (Inr y, s') \<longleftrightarrow> (\<exists>x s1. m s = (Inr x, s1) \<and> f x s1 = (Inr y, s'))"
  by (auto simp: bindM_def split: prod.splits sum.splits)

lemma emit_Inr: "emit a s = (r, s') \<longleftrightarrow> r = Inr () \<and> s' = s\<lparr>trace := trace s @ [a]\<rparr>"
  by (auto simp: emit_def)

lemma returnM_Inr: "returnM x s = (r, s') \<longleftrightarrow> r = Inr x \<and> s' = s"
  by (auto simp: returnM_def)

lemma raiseM_Inr: "raiseM e s = (Inr y, s') \<longleftrightarrow> False"
  by (simp add: raiseM_def)

lemma test_stages:
  assumes "test_secure_pairing env v c p io a k s = (Inr (), s')"
  shows "\<exists>s0 ref_dut pair_task s1 dev rev s2 ans s3 s4 s5 s6.
           s0 = s\<lparr>trace := trace s @ [RefSetPairingDelegate io k k]\<rparr>
         \<and> connect_and_initiate env (ref_addr_of env a) c p a s0 = (Inr (ref_dut, pair_task), s1)
         \<and> wait_pairing_requests env (ref_addr_of env a) (need_double_confirmation_of c p) s1
             = (Inr (dev, rev), s2)
         \<and> check_pairing_method io dev rev s2 = (Inr ans, s3)
         \<and> dut_handle_confirmation v (ref_addr_of env a) s3 = (Inr (), s4)
         \<and> ref_handle_confirmation v ans s4 = (Inr (), s5)
         \<and> check_final_state env v s5 = (Inr (), s6)
         \<and> wait_pairing_complete v pair_task s6 = (Inr (), s')"
  using assms
  unfolding test_secure_pairing_def Let_def ref_addr_of_def need_double_confirmation_of_def
  by (auto simp: bindM_Inr emit_Inr split: prod.splits)

text \<open>
  The stages of the test one by one: what a stage that returns has observed, and what it
  has added to the trace and to the queue of answers.
\<close>

lemma check_final_state_Inr:
  assumes "check_final_state env v s = (Inr (), s')"
  shows "terminal_bond_state env = Some (if v = ACCEPT then BONDED else NONE)
         \<and> s' = s\<lparr>trace := trace s @ [DutWaitBondState]\<rparr>"
  using assms
  unfolding check_final_state_def Let_def terminal_bond_state_def wait_for_event_def
    assert_equal_def
  by (auto simp: bindM_Inr emit_Inr returnM_Inr raiseM_Inr split: option.splits if_splits)

lemma wait_pairing_complete_Inr:
  assumes "wait_pairing_complete v pt s = (Inr (), s')"
  shows "(pt = None \<and> s' = s)
         \<or> (\<exists>outcome. pt = Some outcome \<and> s' = s\<lparr>trace := trace s @ [RefAwaitPairTask]\<rparr>
               \<and> (case outcome of None \<Rightarrow> True | Some e \<Rightarrow> e \<in> set (expected_errors v)))"
  using assms
  unfolding wait_pairing_complete_def
  by (auto simp: bindM_Inr emit_Inr returnM_Inr raiseM_Inr split: option.splits if_splits)

lemma outgoing_attempt_trace:
  assumes "make_outgoing_connection_attempt ra pa env t cb s = (r, s')"
  shows "\<exists>tr. trace s' = trace s @ tr \<and> list_all is_connection_action tr
              \<and> pairing_answers s' = pairing_answers s"
  using assms
  unfolding make_outgoing_connection_attempt_def Let_def bindM_def ref_start_advertising_def
    ref_stop_advertising_def emit_def assertTrue_def raise_if_error_def assert_not_timeout_def
    returnM_def raiseM_def
  by (auto split: if_splits option.splits)

lemma incoming_attempt_trace:
  assumes "make_incoming_connection_attempt env t s = (r, s')"
  shows "\<exists>tr. trace s' = trace s @ tr \<and> list_all is_connection_action tr
              \<and> pairing_answers s' = pairing_answers s"
  using assms
  unfolding make_incoming_connection_attempt_def Let_def bindM_def uuid4_def
    dut_start_legacy_advertiser_def with_scope_def dut_stop_advertiser_def
    ref_start_scanning_def ref_stop_scanning_def emit_def raise_if_error_def
    assert_not_timeout_def returnM_def raiseM_def
  by (auto split: if_splits option.splits sum.splits)

lemma retry_trace:
  assumes step: "\<And>i s r s'. operation i s = (r, s') \<Longrightarrow>
            \<exists>tr. trace s' = trace s @ tr \<and> list_all is_connection_action tr
              \<and> pairing_answers s' = pairing_answers s"
    and "retry_on_exception rt n operation i s = (r, s')"
  shows "\<exists>tr. trace s' = trace s @ tr \<and> list_all is_connection_action tr
              \<and> pairing_answers s' = pairing_answers s"
  using assms(2)
proof (induction n arbitrary: i s)
  case 0
  then show ?case using step by simp
next
  case (Suc n)
  obtain r1 s1 where op: "operation i s = (r1, s1)" by (cases "operation i s")
  from step [OF op] obtain tr1 where
    t1: "trace s1 = trace s @ tr1" "list_all is_connection_action tr1"
        "pairing_answers s1 = pairing_answers s" by blast
  show ?case
  proof (cases r1)
    case (Inr x)
    with Suc.prems op t1 show ?thesis by auto
  next
    case (Inl e)
    show ?thesis
    proof (cases "rt e")
      case True
      with Suc.prems op Inl
      have "retry_on_exception rt n operation (Suc i) s1 = (r, s')" by simp
      from Suc.IH [OF this] obtain tr2 where
        "trace s' = trace s1 @ tr2" "list_all is_connection_action tr2"
        "pairing_answers s' = pairing_answers s1" by blast
      with t1 show ?thesis by auto
    next
      case False
      with Suc.prems op Inl t1 show ?thesis by auto
    qed
  qed
qed

lemma make_outgoing_connection_trace:
  assumes "make_outgoing_connection env t cb s = (r, s')"
  shows "\<exists>tr. trace s' = trace s @ tr \<and> list_all is_connection_action tr
              \<and> pairing_answers s' = pairing_answers s"
  using assms unfolding make_outgoing_connection_def
  by (rule retry_trace [rotated]) (rule outgoing_attempt_trace)

lemma make_incoming_connection_trace:
  assumes "make_incoming_connection env t s = (r, s')"
  shows "\<exists>tr. trace s' = trace s @ tr \<and> list_all is_connection_action tr
              \<and> pairing_answers s' = pairing_answers s"
  using assms unfolding make_incoming_connection_def
  by (rule retry_trace [rotated]) (rule incoming_attempt_trace)

lemma connect_and_initiate_Inr:
  assumes "connect_and_initiate env ref_addr c p t s = (Inr (ref_dut, pair_task), s')"
  shows "pair_task = (if c = INCOMING \<and> p = INCOMING then Some (pair_task_outcome env) else None)
         \<and> pairing_answers s' = pairing_answers s
         \<and> (\<exists>tr x. trace s' = trace s @ tr @ [x] \<and> list_all is_connection_action tr
               \<and> x \<in> {RefRequestPairing, DutGetAllBondEvents, RefPair, DutCreateBond ref_addr t})"
proof -
  have c_cases: "c = OUTGOING \<or> c = INCOMING" by (cases c) auto
  have p_cases: "p = OUTGOING \<or> p = INCOMING" by (cases p) auto
  show ?thesis
    using assms c_cases p_cases
    unfolding connect_and_initiate_def
    by (auto simp: bindM_Inr emit_Inr returnM_Inr split: if_splits
          dest!: make_outgoing_connection_trace make_incoming_connection_trace)
qed

lemma wait_pairing_requests_Inr:
  assumes "wait_pairing_requests env ra ndc s = (Inr (dev, rv), s')"
  shows "first_dut_pairing_event env ra \<noteq> None
         \<and> (if ndc then second_dut_pairing_event env ra else first_dut_pairing_event env ra)
             = Some dev
         \<and> ref_pairing_event_of env = Some rv
         \<and> s' = s\<lparr>trace := trace s @
                   (if ndc then [DutWaitPairingRequest, DutSetPairingConfirmation ra True,
                                 DutWaitPairingRequest, RefGetPairingEvent]
                    else [DutWaitPairingRequest, RefGetPairingEvent])\<rparr>"
  using assms
  unfolding wait_pairing_requests_def first_dut_pairing_event_def
    second_dut_pairing_event_def ref_pairing_event_of_def wait_for_event_def
    wait_for_queue_get_def
  by (auto simp: bindM_Inr emit_Inr returnM_Inr raiseM_Inr
        split: option.splits if_splits list.splits)

lemma check_pairing_method_Inr:
  assumes "check_pairing_method io dev rv s = (Inr ans, s')"
  shows "s' = s \<and> expected_pairing io dev = Some (pr_variant dev, ev_variant rv, ans)"
  using assms
  unfolding check_pairing_method_def assert_equal_def
  by (auto simp: bindM_Inr returnM_Inr raiseM_Inr split: option.splits if_splits prod.splits)

lemma dut_handle_confirmation_eq:
  "dut_handle_confirmation v ra s =
     (Inr (), s\<lparr>trace := trace s @
        (case v of ACCEPT \<Rightarrow> [DutSetPairingConfirmation ra True]
         | REJECT \<Rightarrow> [DutSetPairingConfirmation ra False]
         | REJECTED \<Rightarrow> [DutSetPairingConfirmation ra True]
         | DISCONNECTED \<Rightarrow> [])\<rparr>)"
  by (cases v) (simp_all add: dut_handle_confirmation_def emit_def returnM_def)

lemma ref_handle_confirmation_eq:
  "ref_handle_confirmation v ans s =
     (Inr (),
      s\<lparr>trace := trace s @
          (case v of ACCEPT \<Rightarrow> [RefPutAnswer ans, RefPutAnswer ans]
           | REJECT \<Rightarrow> [RefPutAnswer ans, RefPutAnswer ans]
           | REJECTED \<Rightarrow>
               [RefPutAnswer (ans\<lparr>ev_arg :=
                  if ev_variant ans \<in> {JUST_WORK, NUMERIC_COMPARISON} then PyBool False
                  else PyNone\<rparr>)]
           | DISCONNECTED \<Rightarrow> [RefDisconnect, RefPutAnswer ans]),
        pairing_answers := pairing_answers s @
          (case v of ACCEPT \<Rightarrow> [ans, ans]
           | REJECT \<Rightarrow> [ans, ans]
           | REJECTED \<Rightarrow>
               [ans\<lparr>ev_arg :=
                  if ev_variant ans \<in> {JUST_WORK, NUMERIC_COMPARISON} then PyBool False
                  else PyNone\<rparr>]
           | DISCONNECTED \<Rightarrow> [ans])\<rparr>)"
  by (cases v)
     (simp_all add: ref_handle_confirmation_def bindM_def put_nowait_def emit_def returnM_def)

lemma fst_Inr_pair: "fst x = Inr () \<Longrightarrow> x = (Inr (), snd x)"
  by (cases x) simp

lemma passing_run:
  assumes "fst (test_secure_pairing env v c p io a k s) = Inr ()"
  shows "\<exists>tr x dev rv ans.
      list_all is_connection_action tr
    \<and> x \<in> {RefRequestPairing, DutGetAllBondEvents, RefPair, DutCreateBond (ref_addr_of env a) a}
    \<and> first_dut_pairing_event env (ref_addr_of env a) \<noteq> None
    \<and> (if need_double_confirmation_of c p then second_dut_pairing_event env (ref_addr_of env a)
        else first_dut_pairing_event env (ref_addr_of env a)) = Some dev
    \<and> ref_pairing_event_of env = Some rv
    \<and> expected_pairing io dev = Some (pr_variant dev, ev_variant rv, ans)
    \<and> terminal_bond_state env = Some (if v = ACCEPT then BONDED else NONE)
    \<and> (c = INCOMING \<and> p = INCOMING \<longrightarrow>
         (case pair_task_outcome env of None \<Rightarrow> True | Some e \<Rightarrow> e \<in> set (expected_errors v)))
    \<and> trace (snd (test_secure_pairing env v c p io a k s)) =
        trace s @ [RefSetPairingDelegate io k k] @ tr @ [x]
        @ (if need_double_confirmation_of c p
           then [DutWaitPairingRequest, DutSetPairingConfirmation (ref_addr_of env a) True,
                 DutWaitPairingRequest, RefGetPairingEvent]
           else [DutWaitPairingRequest, RefGetPairingEvent])
        @ (case v of ACCEPT \<Rightarrow> [DutSetPairingConfirmation (ref_addr_of env a) True]
           | REJECT \<Rightarrow> [DutSetPairingConfirmation (ref_addr_of env a) False]
           | REJECTED \<Rightarrow> [DutSetPairingConfirmation (ref_addr_of env a) True]
           | DISCONNECTED \<Rightarrow> [])
        @ (case v of ACCEPT \<Rightarrow> [RefPutAnswer ans, RefPutAnswer ans]
           | REJECT \<Rightarrow> [RefPutAnswer ans, RefPutAnswer ans]
           | REJECTED \<Rightarrow>
               [RefPutAnswer (ans\<lparr>ev_arg :=
                  if ev_variant ans \<in> {JUST_WORK, NUMERIC_COMPARISON} then PyBool False
                  else PyNone\<rparr>)]
           | DISCONNECTED \<Rightarrow> [RefDisconnect, RefPutAnswer ans])
        @ [DutWaitBondState]
        @ (if c = INCOMING \<and> p = INCOMING then [RefAwaitPairTask] else [])
    \<and> pairing_answers (snd (test_secure_pairing env v c p io a k s)) =
        pairing_answers s @
          (case v of ACCEPT \<Rightarrow> [ans, ans]
           | REJECT \<Rightarrow> [ans, ans]
           | REJECTED \<Rightarrow>
               [ans\<lparr>ev_arg :=
                  if ev_variant ans \<in> {JUST_WORK, NUMERIC_COMPARISON} then PyBool False
                  else PyNone\<rparr>]
           | DISCONNECTED \<Rightarrow> [ans])"
proof -
  let ?ra = "ref_addr_of env a"
  let ?s' = "snd (test_secure_pairing env v c p io a k s)"
  from assms have "test_secure_pairing env v c p io a k s = (Inr (), ?s')"
    by (rule fst_Inr_pair)
  from test_stages [OF this] obtain s0 ref_dut pair_task s1 dev rv s2 ans s3 s4 s5 s6 where
    s0: "s0 = s\<lparr>trace := trace s @ [RefSetPairingDelegate io k k]\<rparr>" and
    conn: "connect_and_initiate env ?ra c p a s0 = (Inr (ref_dut, pair_task), s1)" and
    wait: "wait_pairing_requests env ?ra (need_double_confirmation_of c p) s1
             = (Inr (dev, rv), s2)" and
    chk: "check_pairing_method io dev rv s2 = (Inr ans, s3)" and
    dut: "dut_handle_confirmation v ?ra s3 = (Inr (), s4)" and
    ref: "ref_handle_confirmation v ans s4 = (Inr (), s5)" and
    fin: "check_final_state env v s5 = (Inr (), s6)" and
    task: "wait_pairing_complete v pair_task s6 = (Inr (), ?s')"
    by blast
  from connect_and_initiate_Inr [OF conn] obtain tr x where
    pt: "pair_task = (if c = INCOMING \<and> p = INCOMING then Some (pair_task_outcome env) else None)"
    and a1: "pairing_answers s1 = pairing_answers s0"
    and t1: "trace s1 = trace s0 @ tr @ [x]"
    and tr: "list_all is_connection_action tr"
    and x: "x \<in> {RefRequestPairing, DutGetAllBondEvents, RefPair, DutCreateBond ?ra a}"
    by blast
  note w = wait_pairing_requests_Inr [OF wait]
  note c = check_pairing_method_Inr [OF chk]
  from dut have s4: "s4 = snd (dut_handle_confirmation v ?ra s3)" by simp
  from ref have s5: "s5 = snd (ref_handle_confirmation v ans s4)" by simp
  note f = check_final_state_Inr [OF fin]
  note t = wait_pairing_complete_Inr [OF task]
  have tr_final: "trace ?s' = trace s6
        @ (if c = INCOMING \<and> p = INCOMING then [RefAwaitPairTask] else [])"
    and an_final: "pairing_answers ?s' = pairing_answers s6"
    and outcome: "c = INCOMING \<and> p = INCOMING \<longrightarrow>
         (case pair_task_outcome env of None \<Rightarrow> True | Some e \<Rightarrow> e \<in> set (expected_errors v))"
    using t pt by (auto split: if_splits)
  have tr6: "trace s6 = trace s @ [RefSetPairingDelegate io k k] @ tr @ [x]
        @ (if need_double_confirmation_of c p
           then [DutWaitPairingRequest, DutSetPairingConfirmation ?ra True,
                 DutWaitPairingRequest, RefGetPairingEvent]
           else [DutWaitPairingRequest, RefGetPairingEvent])
        @ (case v of ACCEPT \<Rightarrow> [DutSetPairingConfirmation ?ra True]
           | REJECT \<Rightarrow> [DutSetPairingConfirmation ?ra False]
           | REJECTED \<Rightarrow> [DutSetPairingConfirmation ?ra True]
           | DISCONNECTED \<Rightarrow> [])
        @ (case v of ACCEPT \<Rightarrow> [RefPutAnswer ans, RefPutAnswer ans]
           | REJECT \<Rightarrow> [RefPutAnswer ans, RefPutAnswer ans]
           | REJECTED \<Rightarrow>
               [RefPutAnswer (ans\<lparr>ev_arg :=
                  if ev_variant ans \<in> {JUST_WORK, NUMERIC_COMPARISON} then PyBool False
                  else PyNone\<rparr>)]
           | DISCONNECTED \<Rightarrow> [RefDisconnect, RefPutAnswer ans])
        @ [DutWaitBondState]"
    using f w c s4 s5 t1 s0
    by (simp add: dut_handle_confirmation_eq ref_handle_confirmation_eq)
  have an6: "pairing_answers s6 = pairing_answers s @
          (case v of ACCEPT \<Rightarrow> [ans, ans]
           | REJECT \<Rightarrow> [ans, ans]
           | REJECTED \<Rightarrow>
               [ans\<lparr>ev_arg :=
                  if ev_variant ans \<in> {JUST_WORK, NUMERIC_COMPARISON} then PyBool False
                  else PyNone\<rparr>]
           | DISCONNECTED \<Rightarrow> [ans])"
    using f w c s4 s5 a1 s0
    by (simp add: dut_handle_confirmation_eq ref_handle_confirmation_eq)
  show ?thesis
    apply (rule exI [of _ tr], rule exI [of _ x], rule exI [of _ dev], rule exI [of _ rv],
           rule exI [of _ ans])
    using tr x w c f outcome tr_final tr6 an_final an6 by simp
qed

lemma wait_pairing_complete_task:
  "wait_pairing_complete v (Some outcome) s =
     (case outcome of
        None \<Rightarrow> Inr ()
      | Some e \<Rightarrow> if e \<in> set (expected_errors v) then Inr () else Inl e,
      s\<lparr>trace := trace s @ [RefAwaitPairTask]\<rparr>)"
  by (simp add: wait_pairing_complete_def bindM_def emit_def returnM_def raiseM_def
        split: option.splits)

lemma connection_action_not_await:
  "list_all is_connection_action tr \<Longrightarrow> RefAwaitPairTask \<notin> set tr"
  by (induction tr) auto

section \<open>The terminal bond state\<close>

text \<open>
  Claim C1. Whenever an execution of the test finishes without an error, whatever the
  scenario, the terminal bond state that the DUT has reported (the first reported state
  among \<open>BONDED\<close> and \<open>NONE\<close>) is \<open>BONDED\<close> if and only if the variant is \<open>ACCEPT\<close>, and
  it is \<open>NONE\<close> for each of the other variants.
\<close>

theorem final_bond_state_iff_accept:
  assumes "fst (test_secure_pairing env variant connection_direction pairing_direction
                  ref_io_capability ref_connection_address_type smp_key_distribution s) = Inr ()"
  shows "(terminal_bond_state env = Some BONDED \<longleftrightarrow> variant = ACCEPT)
       \<and> (terminal_bond_state env = Some NONE \<longleftrightarrow> variant \<noteq> ACCEPT)"
proof -
  from passing_run [OF assms]
  have "terminal_bond_state env = Some (if variant = ACCEPT then BONDED else NONE)"
    by blast
  then show ?thesis by simp
qed

text \<open>
  The scenario of the end-to-end example passes in the example environment, and the bond
  state is \<open>BONDED\<close>.
\<close>

theorem final_bond_state_iff_accept_witness:
  "fst (test_secure_pairing (example_env ACCEPT NO_OUTPUT_NO_INPUT) ACCEPT OUTGOING OUTGOING
          NO_OUTPUT_NO_INPUT RANDOM 3 initial_harness) = Inr ()
   \<and> terminal_bond_state (example_env ACCEPT NO_OUTPUT_NO_INPUT) = Some BONDED
   \<and> terminal_bond_state (example_env ACCEPT NO_OUTPUT_NO_INPUT) \<noteq> Some NONE"
proof -
  have run: "fst (test_secure_pairing (example_env ACCEPT NO_OUTPUT_NO_INPUT) ACCEPT OUTGOING
                    OUTGOING NO_OUTPUT_NO_INPUT RANDOM 3 initial_harness) = Inr ()"
    by code_simp
  from final_bond_state_iff_accept [OF run] run show ?thesis by simp
qed

section \<open>Awaiting the pairing task of REF\<close>

lemma passing_run_trace:
  assumes "fst (test_secure_pairing env v c p io a k s) = Inr ()"
  shows "\<exists>tr x ans.
      list_all is_connection_action tr
    \<and> x \<in> {RefRequestPairing, DutGetAllBondEvents, RefPair, DutCreateBond (ref_addr_of env a) a}
    \<and> trace (snd (test_secure_pairing env v c p io a k s)) =
        trace s @ [RefSetPairingDelegate io k k] @ tr @ [x]
        @ (if need_double_confirmation_of c p
           then [DutWaitPairingRequest, DutSetPairingConfirmation (ref_addr_of env a) True,
                 DutWaitPairingRequest, RefGetPairingEvent]
           else [DutWaitPairingRequest, RefGetPairingEvent])
        @ (case v of ACCEPT \<Rightarrow> [DutSetPairingConfirmation (ref_addr_of env a) True]
           | REJECT \<Rightarrow> [DutSetPairingConfirmation (ref_addr_of env a) False]
           | REJECTED \<Rightarrow> [DutSetPairingConfirmation (ref_addr_of env a) True]
           | DISCONNECTED \<Rightarrow> [])
        @ (case v of ACCEPT \<Rightarrow> [RefPutAnswer ans, RefPutAnswer ans]
           | REJECT \<Rightarrow> [RefPutAnswer ans, RefPutAnswer ans]
           | REJECTED \<Rightarrow>
               [RefPutAnswer (ans\<lparr>ev_arg :=
                  if ev_variant ans \<in> {JUST_WORK, NUMERIC_COMPARISON} then PyBool False
                  else PyNone\<rparr>)]
           | DISCONNECTED \<Rightarrow> [RefDisconnect, RefPutAnswer ans])
        @ [DutWaitBondState]
        @ (if c = INCOMING \<and> p = INCOMING then [RefAwaitPairTask] else [])"
  using passing_run [OF assms] by blast

lemma passing_run_task:
  assumes "fst (test_secure_pairing env v c p io a k s) = Inr ()"
    and "c = INCOMING \<and> p = INCOMING"
  shows "pair_task_outcome env \<in> set (None # map Some (expected_errors v))"
proof -
  from passing_run [OF assms(1)] assms(2)
  have "case pair_task_outcome env of None \<Rightarrow> True | Some e \<Rightarrow> e \<in> set (expected_errors v)"
    by blast
  then show ?thesis by (cases "pair_task_outcome env") auto
qed

text \<open>
  Claim C2, as amended. When the connection direction and the pairing direction are both
  \<open>INCOMING\<close>, the only cases in which REF holds a pairing task, an execution that finishes
  without an error has awaited the task as its last action, and the task has ended without
  an error or with an error of the classes expected for the variant: \<open>ProtocolError\<close> for
  \<open>REJECT\<close> and \<open>REJECTED\<close>, \<open>Cancelled\<close> for \<open>DISCONNECTED\<close>, none for \<open>ACCEPT\<close>. Awaiting a
  task that ends with an error of another class raises that error. In every other case,
  also with an outgoing connection and the pairing direction \<open>INCOMING\<close>, no task is awaited.
\<close>

theorem pair_task_awaited_when_ref_connects_and_pairs:
  assumes "fst (test_secure_pairing env variant connection_direction pairing_direction
                  ref_io_capability ref_connection_address_type smp_key_distribution s) = Inr ()"
  shows "(if connection_direction = INCOMING \<and> pairing_direction = INCOMING
          then last (trace (snd (test_secure_pairing env variant connection_direction
                  pairing_direction ref_io_capability ref_connection_address_type
                  smp_key_distribution s))) = RefAwaitPairTask
               \<and> pair_task_outcome env \<in> set (None # map Some (expected_errors variant))
          else RefAwaitPairTask \<notin> set (drop (length (trace s))
                 (trace (snd (test_secure_pairing env variant connection_direction
                    pairing_direction ref_io_capability ref_connection_address_type
                    smp_key_distribution s)))))
       \<and> expected_errors variant =
           (if variant = REJECT \<or> variant = REJECTED then [ProtocolError]
            else if variant = DISCONNECTED then [Cancelled] else [])
       \<and> wait_pairing_complete variant (Some (Some e)) s' =
           (if e \<in> set (expected_errors variant) then Inr () else Inl e,
            s'\<lparr>trace := trace s' @ [RefAwaitPairTask]\<rparr>)"
proof -
  let ?run = "test_secure_pairing env variant connection_direction pairing_direction
                ref_io_capability ref_connection_address_type smp_key_distribution s"
  from passing_run_trace [OF assms] obtain tr x ans where
    tr: "list_all is_connection_action tr" and
    x: "x \<in> {RefRequestPairing, DutGetAllBondEvents, RefPair,
             DutCreateBond (ref_addr_of env ref_connection_address_type)
               ref_connection_address_type}" and
    trace: "trace (snd ?run) =
        trace s @ [RefSetPairingDelegate ref_io_capability smp_key_distribution
                     smp_key_distribution] @ tr @ [x]
        @ (if need_double_confirmation_of connection_direction pairing_direction
           then [DutWaitPairingRequest,
                 DutSetPairingConfirmation (ref_addr_of env ref_connection_address_type) True,
                 DutWaitPairingRequest, RefGetPairingEvent]
           else [DutWaitPairingRequest, RefGetPairingEvent])
        @ (case variant of
             ACCEPT \<Rightarrow>
               [DutSetPairingConfirmation (ref_addr_of env ref_connection_address_type) True]
           | REJECT \<Rightarrow>
               [DutSetPairingConfirmation (ref_addr_of env ref_connection_address_type) False]
           | REJECTED \<Rightarrow>
               [DutSetPairingConfirmation (ref_addr_of env ref_connection_address_type) True]
           | DISCONNECTED \<Rightarrow> [])
        @ (case variant of ACCEPT \<Rightarrow> [RefPutAnswer ans, RefPutAnswer ans]
           | REJECT \<Rightarrow> [RefPutAnswer ans, RefPutAnswer ans]
           | REJECTED \<Rightarrow>
               [RefPutAnswer (ans\<lparr>ev_arg :=
                  if ev_variant ans \<in> {JUST_WORK, NUMERIC_COMPARISON} then PyBool False
                  else PyNone\<rparr>)]
           | DISCONNECTED \<Rightarrow> [RefDisconnect, RefPutAnswer ans])
        @ [DutWaitBondState]
        @ (if connection_direction = INCOMING \<and> pairing_direction = INCOMING
           then [RefAwaitPairTask] else [])"
    by blast
  have awaited: "connection_direction = INCOMING \<and> pairing_direction = INCOMING \<Longrightarrow>
      last (trace (snd ?run)) = RefAwaitPairTask"
    using trace by simp
  have not_awaited: "\<not> (connection_direction = INCOMING \<and> pairing_direction = INCOMING) \<Longrightarrow>
      RefAwaitPairTask \<notin> set (drop (length (trace s)) (trace (snd ?run)))"
    using connection_action_not_await [OF tr] x trace
    by (cases variant) auto
  have errors: "expected_errors variant =
           (if variant = REJECT \<or> variant = REJECTED then [ProtocolError]
            else if variant = DISCONNECTED then [Cancelled] else [])"
    by (cases variant) (simp_all add: expected_errors_def)
  have task: "wait_pairing_complete variant (Some (Some e)) s' =
           (if e \<in> set (expected_errors variant) then Inr () else Inl e,
            s'\<lparr>trace := trace s' @ [RefAwaitPairTask]\<rparr>)"
    by (simp add: wait_pairing_complete_task)
  from awaited passing_run_task [OF assms] not_awaited
  have "if connection_direction = INCOMING \<and> pairing_direction = INCOMING
          then last (trace (snd ?run)) = RefAwaitPairTask
               \<and> pair_task_outcome env \<in> set (None # map Some (expected_errors variant))
          else RefAwaitPairTask \<notin> set (drop (length (trace s)) (trace (snd ?run)))"
    by (split if_split) blast
  with errors task show ?thesis by (intro conjI)
qed

text \<open>
  The scenario with variant \<open>REJECT\<close> in which REF connects and pairs passes in the example
  environment, where the task ends with \<open>ProtocolError\<close>; a cancelled task would have failed
  the case.
\<close>

theorem pair_task_awaited_when_ref_connects_and_pairs_witness:
  "fst (test_secure_pairing (example_env REJECT DISPLAY_OUTPUT_AND_YES_NO_INPUT) REJECT INCOMING
          INCOMING DISPLAY_OUTPUT_AND_YES_NO_INPUT RANDOM 3 initial_harness) = Inr ()
   \<and> last (trace (snd (test_secure_pairing (example_env REJECT DISPLAY_OUTPUT_AND_YES_NO_INPUT)
          REJECT INCOMING INCOMING DISPLAY_OUTPUT_AND_YES_NO_INPUT RANDOM 3 initial_harness)))
       = RefAwaitPairTask
   \<and> pair_task_outcome (example_env REJECT DISPLAY_OUTPUT_AND_YES_NO_INPUT) = Some ProtocolError
   \<and> expected_errors REJECT = [ProtocolError]
   \<and> fst (wait_pairing_complete REJECT (Some (Some Cancelled)) initial_harness) = Inl Cancelled"
proof -
  have run: "fst (test_secure_pairing (example_env REJECT DISPLAY_OUTPUT_AND_YES_NO_INPUT) REJECT
                    INCOMING INCOMING DISPLAY_OUTPUT_AND_YES_NO_INPUT RANDOM 3 initial_harness)
             = Inr ()"
    by code_simp
  have task: "pair_task_outcome (example_env REJECT DISPLAY_OUTPUT_AND_YES_NO_INPUT)
              = Some ProtocolError"
    by (simp add: example_env_def)
  from pair_task_awaited_when_ref_connects_and_pairs
         [OF run, of Cancelled initial_harness] run task
  show ?thesis by simp
qed

text \<open>
  Claim C2 as it is stated does not hold: with an outgoing connection and the pairing
  direction \<open>INCOMING\<close> REF only requests pairing, the test holds no task and the
  execution passes without awaiting one; and a case with variant \<open>REJECT\<close> passes as well
  when the task ends without an error.
\<close>

theorem pair_task_not_awaited_counterexample:
  "fst (test_secure_pairing
          ((example_env ACCEPT NO_OUTPUT_NO_INPUT)\<lparr>pair_task_outcome := Some OtherError\<rparr>)
          ACCEPT OUTGOING INCOMING NO_OUTPUT_NO_INPUT RANDOM 3 initial_harness) = Inr ()
   \<and> RefAwaitPairTask \<notin> set (trace (snd (test_secure_pairing
          ((example_env ACCEPT NO_OUTPUT_NO_INPUT)\<lparr>pair_task_outcome := Some OtherError\<rparr>)
          ACCEPT OUTGOING INCOMING NO_OUTPUT_NO_INPUT RANDOM 3 initial_harness)))
   \<and> fst (test_secure_pairing
          ((example_env REJECT NO_OUTPUT_NO_INPUT)\<lparr>pair_task_outcome := None\<rparr>)
          REJECT INCOMING INCOMING NO_OUTPUT_NO_INPUT RANDOM 3 initial_harness) = Inr ()"
  by code_simp

section \<open>The prompts of the two sides\<close>

lemma connection_action_not_pairing:
  "list_all is_connection_action tr \<Longrightarrow>
     filter is_dut_pairing_action tr = [] \<and> RefGetPairingEvent \<notin> set tr"
proof (induction tr)
  case Nil
  then show ?case by simp
next
  case (Cons x tr)
  then show ?case by (cases x) auto
qed

lemma passing_run_prompts:
  assumes "fst (test_secure_pairing env v c p io a k s) = Inr ()"
  shows "\<exists>dev rv ans.
      first_dut_pairing_event env (ref_addr_of env a) \<noteq> None
    \<and> (if need_double_confirmation_of c p then second_dut_pairing_event env (ref_addr_of env a)
        else first_dut_pairing_event env (ref_addr_of env a)) = Some dev
    \<and> ref_pairing_event_of env = Some rv
    \<and> expected_pairing io dev = Some (pr_variant dev, ev_variant rv, ans)
    \<and> pairing_answers (snd (test_secure_pairing env v c p io a k s)) =
        pairing_answers s @
          (case v of ACCEPT \<Rightarrow> [ans, ans]
           | REJECT \<Rightarrow> [ans, ans]
           | REJECTED \<Rightarrow>
               [ans\<lparr>ev_arg :=
                  if ev_variant ans \<in> {JUST_WORK, NUMERIC_COMPARISON} then PyBool False
                  else PyNone\<rparr>]
           | DISCONNECTED \<Rightarrow> [ans])"
  using passing_run [OF assms] by blast

lemma expected_pairing_cases:
  assumes "expected_pairing io dev = Some (dv, rvv, ans)"
  shows "io = NO_OUTPUT_NO_INPUT \<and> dv = CONSENT \<and> rvv = JUST_WORK
           \<and> ans = \<lparr>ev_variant = JUST_WORK, ev_arg = PyBool True\<rparr>
       \<or> io = DISPLAY_OUTPUT_AND_YES_NO_INPUT \<and> dv = PASSKEY_CONFIRMATION
           \<and> rvv = NUMERIC_COMPARISON
           \<and> ans = \<lparr>ev_variant = NUMERIC_COMPARISON, ev_arg = pr_pin dev\<rparr>"
  using assms by (auto simp: expected_pairing_def split: if_splits)




section \<open>Double confirmation\<close>

text \<open>
  Claim C6. In an execution that finishes without an error, the DUT-side actions made
  before the test takes REF's prompt are, for an outgoing connection with pairing
  direction \<open>INCOMING\<close>, a wait for a pairing request, the initial confirmation, and a
  second wait for a pairing request; for every other combination of directions, one wait
  only. No further wait for a pairing request follows. The event that the last of these
  waits returned (the second event under double confirmation) is the one whose value
  REF is answered with in the numeric comparison.
\<close>

theorem double_confirmation_events:
  assumes "fst (test_secure_pairing env variant connection_direction pairing_direction
                  ref_io_capability ref_connection_address_type smp_key_distribution s) = Inr ()"
  shows "\<exists>before_ref_prompt resolution dut_pairing_event.
      trace (snd (test_secure_pairing env variant connection_direction pairing_direction
                    ref_io_capability ref_connection_address_type smp_key_distribution s))
        = trace s @ before_ref_prompt @ RefGetPairingEvent # resolution
    \<and> RefGetPairingEvent \<notin> set before_ref_prompt
    \<and> filter is_dut_pairing_action before_ref_prompt =
        (if connection_direction = OUTGOING \<and> pairing_direction = INCOMING
         then [DutWaitPairingRequest,
               DutSetPairingConfirmation (ref_addr_of env ref_connection_address_type) True,
               DutWaitPairingRequest]
         else [DutWaitPairingRequest])
    \<and> first_dut_pairing_event env (ref_addr_of env ref_connection_address_type) \<noteq> None
    \<and> (if connection_direction = OUTGOING \<and> pairing_direction = INCOMING
        then second_dut_pairing_event env (ref_addr_of env ref_connection_address_type)
        else first_dut_pairing_event env (ref_addr_of env ref_connection_address_type))
         = Some dut_pairing_event
    \<and> DutWaitPairingRequest \<notin> set resolution
    \<and> last (pairing_answers (snd (test_secure_pairing env variant connection_direction
                pairing_direction ref_io_capability ref_connection_address_type
                smp_key_distribution s)))
         = (if ref_io_capability = NO_OUTPUT_NO_INPUT
            then \<lparr>ev_variant = JUST_WORK, ev_arg = PyBool (variant \<noteq> REJECTED)\<rparr>
            else \<lparr>ev_variant = NUMERIC_COMPARISON,
                   ev_arg = (if variant = REJECTED then PyBool False
                             else pr_pin dut_pairing_event)\<rparr>)"
proof -
  let ?run = "test_secure_pairing env variant connection_direction pairing_direction
                ref_io_capability ref_connection_address_type smp_key_distribution s"
  let ?ra = "ref_addr_of env ref_connection_address_type"
  let ?ndc = "connection_direction = OUTGOING \<and> pairing_direction = INCOMING"
  from passing_run [OF assms] obtain tr x dev and rv :: PairingEvent and ans where
    tr: "list_all is_connection_action tr" and
    x: "x \<in> {RefRequestPairing, DutGetAllBondEvents, RefPair,
             DutCreateBond ?ra ref_connection_address_type}" and
    first: "first_dut_pairing_event env ?ra \<noteq> None" and
    dev: "(if need_double_confirmation_of connection_direction pairing_direction
           then second_dut_pairing_event env ?ra else first_dut_pairing_event env ?ra)
          = Some dev" and
    exp: "expected_pairing ref_io_capability dev = Some (pr_variant dev, ev_variant rv, ans)" and
    trace: "trace (snd ?run) =
        trace s @ [RefSetPairingDelegate ref_io_capability smp_key_distribution
                     smp_key_distribution] @ tr @ [x]
        @ (if need_double_confirmation_of connection_direction pairing_direction
           then [DutWaitPairingRequest, DutSetPairingConfirmation ?ra True,
                 DutWaitPairingRequest, RefGetPairingEvent]
           else [DutWaitPairingRequest, RefGetPairingEvent])
        @ (case variant of
             ACCEPT \<Rightarrow> [DutSetPairingConfirmation ?ra True]
           | REJECT \<Rightarrow> [DutSetPairingConfirmation ?ra False]
           | REJECTED \<Rightarrow> [DutSetPairingConfirmation ?ra True]
           | DISCONNECTED \<Rightarrow> [])
        @ (case variant of ACCEPT \<Rightarrow> [RefPutAnswer ans, RefPutAnswer ans]
           | REJECT \<Rightarrow> [RefPutAnswer ans, RefPutAnswer ans]
           | REJECTED \<Rightarrow>
               [RefPutAnswer (ans\<lparr>ev_arg :=
                  if ev_variant ans \<in> {JUST_WORK, NUMERIC_COMPARISON} then PyBool False
                  else PyNone\<rparr>)]
           | DISCONNECTED \<Rightarrow> [RefDisconnect, RefPutAnswer ans])
        @ [DutWaitBondState]
        @ (if connection_direction = INCOMING \<and> pairing_direction = INCOMING
           then [RefAwaitPairTask] else [])" and
    answers: "pairing_answers (snd ?run) =
        pairing_answers s @
          (case variant of ACCEPT \<Rightarrow> [ans, ans]
           | REJECT \<Rightarrow> [ans, ans]
           | REJECTED \<Rightarrow>
               [ans\<lparr>ev_arg :=
                  if ev_variant ans \<in> {JUST_WORK, NUMERIC_COMPARISON} then PyBool False
                  else PyNone\<rparr>]
           | DISCONNECTED \<Rightarrow> [ans])"
    by blast
  define pre where "pre =
     [RefSetPairingDelegate ref_io_capability smp_key_distribution smp_key_distribution]
     @ tr @ [x]
     @ (if ?ndc then [DutWaitPairingRequest, DutSetPairingConfirmation ?ra True,
                      DutWaitPairingRequest]
        else [DutWaitPairingRequest])"
  define post where "post =
        (case variant of
             ACCEPT \<Rightarrow> [DutSetPairingConfirmation ?ra True]
           | REJECT \<Rightarrow> [DutSetPairingConfirmation ?ra False]
           | REJECTED \<Rightarrow> [DutSetPairingConfirmation ?ra True]
           | DISCONNECTED \<Rightarrow> [])
        @ (case variant of ACCEPT \<Rightarrow> [RefPutAnswer ans, RefPutAnswer ans]
           | REJECT \<Rightarrow> [RefPutAnswer ans, RefPutAnswer ans]
           | REJECTED \<Rightarrow>
               [RefPutAnswer (ans\<lparr>ev_arg :=
                  if ev_variant ans \<in> {JUST_WORK, NUMERIC_COMPARISON} then PyBool False
                  else PyNone\<rparr>)]
           | DISCONNECTED \<Rightarrow> [RefDisconnect, RefPutAnswer ans])
        @ [DutWaitBondState]
        @ (if connection_direction = INCOMING \<and> pairing_direction = INCOMING
           then [RefAwaitPairTask] else [])"
  note quiet = connection_action_not_pairing [OF tr]
  have split: "trace (snd ?run) = trace s @ pre @ RefGetPairingEvent # post"
    using trace unfolding pre_def post_def need_double_confirmation_of_def by simp
  have fresh: "RefGetPairingEvent \<notin> set pre"
    using quiet x unfolding pre_def by auto
  have waits: "filter is_dut_pairing_action pre =
        (if ?ndc then [DutWaitPairingRequest, DutSetPairingConfirmation ?ra True,
                       DutWaitPairingRequest]
         else [DutWaitPairingRequest])"
    using quiet x unfolding pre_def by auto
  have dev': "(if ?ndc then second_dut_pairing_event env ?ra
               else first_dut_pairing_event env ?ra) = Some dev"
    using dev unfolding need_double_confirmation_of_def .
  have compared: "last (pairing_answers (snd ?run))
         = (if ref_io_capability = NO_OUTPUT_NO_INPUT
            then \<lparr>ev_variant = JUST_WORK, ev_arg = PyBool (variant \<noteq> REJECTED)\<rparr>
            else \<lparr>ev_variant = NUMERIC_COMPARISON,
                   ev_arg = (if variant = REJECTED then PyBool False else pr_pin dev)\<rparr>)"
    using expected_pairing_cases [OF exp] answers by (cases variant) auto
  have resolved: "DutWaitPairingRequest \<notin> set post"
    unfolding post_def by (cases variant) auto
  from split fresh waits first dev' resolved compared show ?thesis by blast
qed

text \<open>
  Double confirmation in the example environment: the first prompt of the DUT shows
  111111, the second 123456, and REF is answered with 123456.
\<close>

theorem double_confirmation_events_witness:
  "fst (test_secure_pairing (example_env ACCEPT DISPLAY_OUTPUT_AND_YES_NO_INPUT) ACCEPT OUTGOING
          INCOMING DISPLAY_OUTPUT_AND_YES_NO_INPUT RANDOM 3 initial_harness) = Inr ()
   \<and> first_dut_pairing_event (example_env ACCEPT DISPLAY_OUTPUT_AND_YES_NO_INPUT)
        (ref_addr_of (example_env ACCEPT DISPLAY_OUTPUT_AND_YES_NO_INPUT) RANDOM)
       = Some \<lparr>pr_address = ''F0:F1:F2:F3:F4:F5'', pr_variant = PASSKEY_CONFIRMATION,
               pr_pin = PyInt 111111\<rparr>
   \<and> second_dut_pairing_event (example_env ACCEPT DISPLAY_OUTPUT_AND_YES_NO_INPUT)
        (ref_addr_of (example_env ACCEPT DISPLAY_OUTPUT_AND_YES_NO_INPUT) RANDOM)
       = Some \<lparr>pr_address = ''F0:F1:F2:F3:F4:F5'', pr_variant = PASSKEY_CONFIRMATION,
               pr_pin = PyInt 123456\<rparr>
   \<and> last (pairing_answers (snd (test_secure_pairing
        (example_env ACCEPT DISPLAY_OUTPUT_AND_YES_NO_INPUT) ACCEPT OUTGOING
          INCOMING DISPLAY_OUTPUT_AND_YES_NO_INPUT RANDOM 3 initial_harness)))
       = \<lparr>ev_variant = NUMERIC_COMPARISON, ev_arg = PyInt 123456\<rparr>"
proof -
  let ?env = "example_env ACCEPT DISPLAY_OUTPUT_AND_YES_NO_INPUT"
  let ?run = "test_secure_pairing ?env ACCEPT OUTGOING INCOMING DISPLAY_OUTPUT_AND_YES_NO_INPUT
                RANDOM 3 initial_harness"
  have run: "fst ?run = Inr ()"
    by code_simp
  have first: "first_dut_pairing_event ?env (ref_addr_of ?env RANDOM)
       = Some \<lparr>pr_address = ''F0:F1:F2:F3:F4:F5'', pr_variant = PASSKEY_CONFIRMATION,
               pr_pin = PyInt 111111\<rparr>"
    by code_simp
  have second: "second_dut_pairing_event ?env (ref_addr_of ?env RANDOM)
       = Some \<lparr>pr_address = ''F0:F1:F2:F3:F4:F5'', pr_variant = PASSKEY_CONFIRMATION,
               pr_pin = PyInt 123456\<rparr>"
    by code_simp
  from double_confirmation_events [OF run] obtain dev where
    observed: "(if OUTGOING = OUTGOING \<and> INCOMING = INCOMING
         then second_dut_pairing_event ?env (ref_addr_of ?env RANDOM)
         else first_dut_pairing_event ?env (ref_addr_of ?env RANDOM)) = Some dev" and
    answer: "last (pairing_answers (snd ?run))
         = (if DISPLAY_OUTPUT_AND_YES_NO_INPUT = NO_OUTPUT_NO_INPUT
            then \<lparr>ev_variant = JUST_WORK, ev_arg = PyBool (ACCEPT \<noteq> REJECTED)\<rparr>
            else \<lparr>ev_variant = NUMERIC_COMPARISON,
                   ev_arg = (if ACCEPT = REJECTED then PyBool False else pr_pin dev)\<rparr>)"
    by blast
  from observed second have "dev = \<lparr>pr_address = ''F0:F1:F2:F3:F4:F5'',
      pr_variant = PASSKEY_CONFIRMATION, pr_pin = PyInt 123456\<rparr>"
    by simp
  with answer have "last (pairing_answers (snd ?run))
       = \<lparr>ev_variant = NUMERIC_COMPARISON, ev_arg = PyInt 123456\<rparr>"
    by simp
  with run first second show ?thesis
    by (intro conjI)
qed

section \<open>The asymmetric rejection\<close>

text \<open>
  Claim C7. In an execution of the variant \<open>REJECT\<close> that finishes without an error, the
  last confirmation of the DUT is \<open>False\<close>, while the only answer that REF is given is the
  accepting one: \<open>True\<close> for just-works, the value of the DUT's prompt for the numeric
  comparison. REF is handled in the variant \<open>REJECT\<close> exactly as in the variant \<open>ACCEPT\<close>.
\<close>

theorem reject_is_asymmetric:
  assumes "fst (test_secure_pairing env REJECT connection_direction pairing_direction
                  ref_io_capability ref_connection_address_type smp_key_distribution s) = Inr ()"
  shows "\<exists>dut_pairing_event.
      (if connection_direction = OUTGOING \<and> pairing_direction = INCOMING
       then second_dut_pairing_event env (ref_addr_of env ref_connection_address_type)
       else first_dut_pairing_event env (ref_addr_of env ref_connection_address_type))
        = Some dut_pairing_event
    \<and> last (filter is_dut_pairing_action
          (trace (snd (test_secure_pairing env REJECT connection_direction pairing_direction
             ref_io_capability ref_connection_address_type smp_key_distribution s))))
        = DutSetPairingConfirmation (ref_addr_of env ref_connection_address_type) False
    \<and> set (drop (length (pairing_answers s))
          (pairing_answers (snd (test_secure_pairing env REJECT connection_direction
             pairing_direction ref_io_capability ref_connection_address_type
             smp_key_distribution s))))
        = {if ref_io_capability = NO_OUTPUT_NO_INPUT
           then \<lparr>ev_variant = JUST_WORK, ev_arg = PyBool True\<rparr>
           else \<lparr>ev_variant = NUMERIC_COMPARISON, ev_arg = pr_pin dut_pairing_event\<rparr>}
    \<and> ref_handle_confirmation REJECT = ref_handle_confirmation ACCEPT"
proof -
  let ?run = "test_secure_pairing env REJECT connection_direction pairing_direction
                ref_io_capability ref_connection_address_type smp_key_distribution s"
  let ?ra = "ref_addr_of env ref_connection_address_type"
  from passing_run_trace [OF assms] obtain tr x ans' where
    trace: "trace (snd ?run) =
        trace s @ [RefSetPairingDelegate ref_io_capability smp_key_distribution
                     smp_key_distribution] @ tr @ [x]
        @ (if need_double_confirmation_of connection_direction pairing_direction
           then [DutWaitPairingRequest, DutSetPairingConfirmation ?ra True,
                 DutWaitPairingRequest, RefGetPairingEvent]
           else [DutWaitPairingRequest, RefGetPairingEvent])
        @ [DutSetPairingConfirmation ?ra False]
        @ [RefPutAnswer ans', RefPutAnswer ans']
        @ [DutWaitBondState]
        @ (if connection_direction = INCOMING \<and> pairing_direction = INCOMING
           then [RefAwaitPairTask] else [])"
    by auto
  from passing_run_prompts [OF assms] obtain dev and rv :: PairingEvent and ans where
    dev: "(if need_double_confirmation_of connection_direction pairing_direction
           then second_dut_pairing_event env ?ra else first_dut_pairing_event env ?ra)
          = Some dev" and
    exp: "expected_pairing ref_io_capability dev = Some (pr_variant dev, ev_variant rv, ans)" and
    answers: "pairing_answers (snd ?run) = pairing_answers s @ [ans, ans]"
    by auto
  have last_confirmation:
    "last (filter is_dut_pairing_action (trace (snd ?run))) = DutSetPairingConfirmation ?ra False"
    unfolding trace by simp
  have answer: "set (drop (length (pairing_answers s)) (pairing_answers (snd ?run)))
        = {if ref_io_capability = NO_OUTPUT_NO_INPUT
           then \<lparr>ev_variant = JUST_WORK, ev_arg = PyBool True\<rparr>
           else \<lparr>ev_variant = NUMERIC_COMPARISON, ev_arg = pr_pin dev\<rparr>}"
    using expected_pairing_cases [OF exp] answers by auto
  have same: "ref_handle_confirmation REJECT = ref_handle_confirmation ACCEPT"
    by (intro ext) (simp add: ref_handle_confirmation_eq)
  from dev last_confirmation answer same show ?thesis
    unfolding need_double_confirmation_of_def by blast
qed

text \<open>
  A rejected numeric comparison in the example environment: the DUT confirms \<open>False\<close> and
  REF is answered with the value 111111 that the DUT shows.
\<close>

theorem reject_is_asymmetric_witness:
  "fst (test_secure_pairing (example_env REJECT DISPLAY_OUTPUT_AND_YES_NO_INPUT) REJECT OUTGOING
          OUTGOING DISPLAY_OUTPUT_AND_YES_NO_INPUT RANDOM 3 initial_harness) = Inr ()
   \<and> first_dut_pairing_event (example_env REJECT DISPLAY_OUTPUT_AND_YES_NO_INPUT)
        (ref_addr_of (example_env REJECT DISPLAY_OUTPUT_AND_YES_NO_INPUT) RANDOM)
       = Some \<lparr>pr_address = ''F0:F1:F2:F3:F4:F5'', pr_variant = PASSKEY_CONFIRMATION,
               pr_pin = PyInt 111111\<rparr>
   \<and> last (filter is_dut_pairing_action
          (trace (snd (test_secure_pairing (example_env REJECT DISPLAY_OUTPUT_AND_YES_NO_INPUT)
             REJECT OUTGOING OUTGOING DISPLAY_OUTPUT_AND_YES_NO_INPUT RANDOM 3 initial_harness))))
        = DutSetPairingConfirmation ''F0:F1:F2:F3:F4:F5'' False
   \<and> set (pairing_answers (snd (test_secure_pairing
          (example_env REJECT DISPLAY_OUTPUT_AND_YES_NO_INPUT) REJECT OUTGOING OUTGOING
          DISPLAY_OUTPUT_AND_YES_NO_INPUT RANDOM 3 initial_harness)))
        = {\<lparr>ev_variant = NUMERIC_COMPARISON, ev_arg = PyInt 111111\<rparr>}"
proof -
  let ?env = "example_env REJECT DISPLAY_OUTPUT_AND_YES_NO_INPUT"
  let ?run = "test_secure_pairing ?env REJECT OUTGOING OUTGOING DISPLAY_OUTPUT_AND_YES_NO_INPUT
                RANDOM 3 initial_harness"
  have run: "fst ?run = Inr ()"
    by code_simp
  have ra: "ref_addr_of ?env RANDOM = ''F0:F1:F2:F3:F4:F5''"
    by code_simp
  have first: "first_dut_pairing_event ?env (ref_addr_of ?env RANDOM)
       = Some \<lparr>pr_address = ''F0:F1:F2:F3:F4:F5'', pr_variant = PASSKEY_CONFIRMATION,
               pr_pin = PyInt 111111\<rparr>"
    by code_simp
  have start: "pairing_answers initial_harness = []"
    by (simp add: initial_harness_def)
  from reject_is_asymmetric [OF run] obtain dev where
    observed: "(if OUTGOING = OUTGOING \<and> OUTGOING = INCOMING
         then second_dut_pairing_event ?env (ref_addr_of ?env RANDOM)
         else first_dut_pairing_event ?env (ref_addr_of ?env RANDOM)) = Some dev" and
    confirmation: "last (filter is_dut_pairing_action (trace (snd ?run)))
       = DutSetPairingConfirmation (ref_addr_of ?env RANDOM) False" and
    answer: "set (drop (length (pairing_answers initial_harness)) (pairing_answers (snd ?run)))
       = {if DISPLAY_OUTPUT_AND_YES_NO_INPUT = NO_OUTPUT_NO_INPUT
          then \<lparr>ev_variant = JUST_WORK, ev_arg = PyBool True\<rparr>
          else \<lparr>ev_variant = NUMERIC_COMPARISON, ev_arg = pr_pin dev\<rparr>}"
    by blast
  from observed first have dev: "dev = \<lparr>pr_address = ''F0:F1:F2:F3:F4:F5'',
      pr_variant = PASSKEY_CONFIRMATION, pr_pin = PyInt 111111\<rparr>"
    by simp
  from confirmation ra have c: "last (filter is_dut_pairing_action (trace (snd ?run)))
       = DutSetPairingConfirmation ''F0:F1:F2:F3:F4:F5'' False"
    by (simp only:)
  from answer start dev have a: "set (pairing_answers (snd ?run))
        = {\<lparr>ev_variant = NUMERIC_COMPARISON, ev_arg = PyInt 111111\<rparr>}"
    by simp
  from run first c a show ?thesis
    by (intro conjI)
qed

section \<open>The answers given to REF\<close>

text \<open>
  Claim C5 does not hold of the code: in the variants \<open>ACCEPT\<close> and \<open>REJECT\<close> the answer is
  put in the branch of the \<^verbatim>\<open>match\<close> and once more by the statement that follows it.
  The end-to-end example takes one prompt from REF's delegate and puts two answers. In the
  variant \<open>DISCONNECTED\<close> the one answer is put after the link has been torn down.
\<close>

theorem accept_puts_two_answers:
  "fst (test_secure_pairing (example_env ACCEPT NO_OUTPUT_NO_INPUT) ACCEPT OUTGOING OUTGOING
          NO_OUTPUT_NO_INPUT RANDOM 3 initial_harness) = Inr ()
   \<and> trace (snd (test_secure_pairing (example_env ACCEPT NO_OUTPUT_NO_INPUT) ACCEPT OUTGOING
          OUTGOING NO_OUTPUT_NO_INPUT RANDOM 3 initial_harness)) =
       [RefSetPairingDelegate NO_OUTPUT_NO_INPUT 3 3, RefStartAdvertising RANDOM,
        DutCreateBond ''F0:F1:F2:F3:F4:F5'' RANDOM, RefStopAdvertising, DutGetAllBondEvents,
        DutWaitPairingRequest, RefGetPairingEvent,
        DutSetPairingConfirmation ''F0:F1:F2:F3:F4:F5'' True,
        RefPutAnswer \<lparr>ev_variant = JUST_WORK, ev_arg = PyBool True\<rparr>,
        RefPutAnswer \<lparr>ev_variant = JUST_WORK, ev_arg = PyBool True\<rparr>,
        DutWaitBondState]
   \<and> pairing_answers (snd (test_secure_pairing (example_env ACCEPT NO_OUTPUT_NO_INPUT) ACCEPT
          OUTGOING OUTGOING NO_OUTPUT_NO_INPUT RANDOM 3 initial_harness))
       = [\<lparr>ev_variant = JUST_WORK, ev_arg = PyBool True\<rparr>,
          \<lparr>ev_variant = JUST_WORK, ev_arg = PyBool True\<rparr>]
   \<and> trace (snd (test_secure_pairing (example_env DISCONNECTED NO_OUTPUT_NO_INPUT)
          DISCONNECTED OUTGOING OUTGOING NO_OUTPUT_NO_INPUT RANDOM 3 initial_harness)) =
       [RefSetPairingDelegate NO_OUTPUT_NO_INPUT 3 3, RefStartAdvertising RANDOM,
        DutCreateBond ''F0:F1:F2:F3:F4:F5'' RANDOM, RefStopAdvertising, DutGetAllBondEvents,
        DutWaitPairingRequest, RefGetPairingEvent, RefDisconnect,
        RefPutAnswer \<lparr>ev_variant = JUST_WORK, ev_arg = PyBool True\<rparr>,
        DutWaitBondState]"
  by code_simp

section \<open>The outgoing connection\<close>

lemma retry_on_exception_timeout:
  assumes "operation i s = (Inl Timeout, s1)"
  shows "retry_on_exception retryable_set (Suc retries) operation i s =
           (if retryable_set Timeout
            then retry_on_exception retryable_set retries operation (Suc i) s1
            else (Inl Timeout, s1))"
  using assms by simp

text \<open>
  Claim C8. One invocation of \<^verbatim>\<open>_make_outgoing_connection\<close> in which the DUT has taken the
  instruction to connect (\<^verbatim>\<open>createBond\<close> returned true, or \<^verbatim>\<open>connect_gatt_client\<close>
  returned), so that the wait of 15 seconds is reached: when REF emits a connection on the
  LE transport within the bound, REF's advertising is stopped and the first such
  connection is returned; when it emits none, the invocation raises \<open>Timeout\<close>, with REF
  still advertising. The retry wrapper invokes the operation again after this \<open>Timeout\<close>
  when \<open>Timeout\<close> is in its retryable set and an attempt is left.
\<close>

theorem outgoing_connection_outcome:
  assumes "if create_bond then create_bond_result (envs i)
           else connect_gatt_result (envs i) = None"
  shows "make_outgoing_connection_attempt random_address public_address (envs i)
           ref_connection_address_type create_bond s =
         (case find (\<lambda>connection. transport connection = BT_LE_TRANSPORT)
                 (connection_events (envs i) 15) of
            Some link \<Rightarrow>
              (Inr link,
               s\<lparr>trace := trace s @
                    [RefStartAdvertising ref_connection_address_type,
                     (if create_bond then DutCreateBond else DutConnectGattClient)
                       (if ref_connection_address_type = RANDOM then random_address
                        else public_address) ref_connection_address_type,
                     RefStopAdvertising],
                  ref_advertising := False\<rparr>)
          | None \<Rightarrow>
              (Inl Timeout,
               s\<lparr>trace := trace s @
                    [RefStartAdvertising ref_connection_address_type,
                     (if create_bond then DutCreateBond else DutConnectGattClient)
                       (if ref_connection_address_type = RANDOM then random_address
                        else public_address) ref_connection_address_type],
                  ref_advertising := True\<rparr>))
       \<and> (if find (\<lambda>connection. transport connection = BT_LE_TRANSPORT)
                 (connection_events (envs i) 15) = None \<and> retryable_set Timeout
          then retry_on_exception retryable_set (Suc retries)
                 (\<lambda>j. make_outgoing_connection_attempt random_address public_address (envs j)
                         ref_connection_address_type create_bond) i s
               = retry_on_exception retryable_set retries
                 (\<lambda>j. make_outgoing_connection_attempt random_address public_address (envs j)
                         ref_connection_address_type create_bond) (Suc i)
                 (s\<lparr>trace := trace s @
                    [RefStartAdvertising ref_connection_address_type,
                     (if create_bond then DutCreateBond else DutConnectGattClient)
                       (if ref_connection_address_type = RANDOM then random_address
                        else public_address) ref_connection_address_type],
                  ref_advertising := True\<rparr>)
          else True)"
proof -
  let ?found = "find (\<lambda>connection. transport connection = BT_LE_TRANSPORT)
                  (connection_events (envs i) 15)"
  let ?dut = "(if create_bond then DutCreateBond else DutConnectGattClient)
                (if ref_connection_address_type = RANDOM then random_address
                 else public_address) ref_connection_address_type"
  have attempt: "make_outgoing_connection_attempt random_address public_address (envs i)
           ref_connection_address_type create_bond s =
         (case ?found of
            Some link \<Rightarrow>
              (Inr link,
               s\<lparr>trace := trace s @
                    [RefStartAdvertising ref_connection_address_type, ?dut, RefStopAdvertising],
                  ref_advertising := False\<rparr>)
          | None \<Rightarrow>
              (Inl Timeout,
               s\<lparr>trace := trace s @ [RefStartAdvertising ref_connection_address_type, ?dut],
                  ref_advertising := True\<rparr>))"
    using assms
    by (simp add: make_outgoing_connection_attempt_def Let_def bindM_def
          ref_start_advertising_def ref_stop_advertising_def emit_def assertTrue_def
          raise_if_error_def returnM_def raiseM_def assert_not_timeout_def on_connection_def
          DEFAULT_STEP_TIMEOUT_SECONDS_def
        split: option.splits)
  let ?again = "retry_on_exception retryable_set (Suc retries)
                 (\<lambda>j. make_outgoing_connection_attempt random_address public_address (envs j)
                         ref_connection_address_type create_bond) i s
               = retry_on_exception retryable_set retries
                 (\<lambda>j. make_outgoing_connection_attempt random_address public_address (envs j)
                         ref_connection_address_type create_bond) (Suc i)
                 (s\<lparr>trace := trace s @ [RefStartAdvertising ref_connection_address_type, ?dut],
                  ref_advertising := True\<rparr>)"
  have retried: "if ?found = None \<and> retryable_set Timeout then ?again else True"
  proof (cases "?found = None \<and> retryable_set Timeout")
    case True
    with attempt have ?again
      by (simp add: retry_on_exception_timeout)
    moreover from True
    have "(if ?found = None \<and> retryable_set Timeout then ?again else True) = ?again"
      by (rule if_P)
    ultimately show ?thesis
      by (simp only:)
  next
    case False
    then have "(if ?found = None \<and> retryable_set Timeout then ?again else True) = True"
      by (rule if_not_P)
    then show ?thesis
      by (simp only:)
  qed
  from attempt retried show ?thesis
    by (intro conjI)
qed

text \<open>
  The two outcomes in the example environments, and a timeout on the first attempt that
  is followed by a second attempt, which returns the link.
\<close>

theorem outgoing_connection_outcome_witness:
  "make_outgoing_connection_attempt ''F0:F1:F2:F3:F4:F5'' ''00:11:22:33:44:55'' outgoing_ok
     RANDOM True initial_harness
     = (Inr example_link,
        initial_harness\<lparr>trace := [RefStartAdvertising RANDOM,
                                   DutCreateBond ''F0:F1:F2:F3:F4:F5'' RANDOM,
                                   RefStopAdvertising],
                         ref_advertising := False\<rparr>)
   \<and> make_outgoing_connection_attempt ''F0:F1:F2:F3:F4:F5'' ''00:11:22:33:44:55''
       outgoing_silent PUBLIC False initial_harness
     = (Inl Timeout,
        initial_harness\<lparr>trace := [RefStartAdvertising PUBLIC,
                                   DutConnectGattClient ''00:11:22:33:44:55'' PUBLIC],
                         ref_advertising := True\<rparr>)
   \<and> fst (retry_on_exception (\<lambda>e. e = Timeout) (Suc 0)
            (\<lambda>j. make_outgoing_connection_attempt ''F0:F1:F2:F3:F4:F5'' ''00:11:22:33:44:55''
                    (if j = 0 then outgoing_silent else outgoing_ok) PUBLIC False)
            0 initial_harness)
     = Inr example_link"
proof -
  let ?envs = "\<lambda>j :: nat. if j = 0 then outgoing_silent else outgoing_ok"
  have found: "find (\<lambda>connection. transport connection = BT_LE_TRANSPORT)
                 (connection_events outgoing_ok 15) = Some example_link"
    by (simp add: outgoing_ok_def classic_link_def example_link_def)
  have silent: "find (\<lambda>connection. transport connection = BT_LE_TRANSPORT)
                 (connection_events outgoing_silent 15) = None"
    by (simp add: outgoing_silent_def)
  have start: "trace initial_harness = []"
    by (simp add: initial_harness_def)
  have bond: "if True then create_bond_result (?envs 1) else connect_gatt_result (?envs 1) = None"
    by (simp add: outgoing_ok_def)
  have gatt0: "if False then create_bond_result (?envs 0)
               else connect_gatt_result (?envs 0) = None"
    by (simp add: outgoing_silent_def)
  have gatt1: "if False then create_bond_result (?envs 1)
               else connect_gatt_result (?envs 1) = None"
    by (simp add: outgoing_ok_def)
  note first = outgoing_connection_outcome [where envs = ?envs and i = 1 and create_bond = True
      and random_address = "''F0:F1:F2:F3:F4:F5''" and public_address = "''00:11:22:33:44:55''"
      and ref_connection_address_type = RANDOM and s = initial_harness, OF bond]
  note second = outgoing_connection_outcome [where envs = ?envs and i = 0
      and create_bond = False
      and random_address = "''F0:F1:F2:F3:F4:F5''" and public_address = "''00:11:22:33:44:55''"
      and ref_connection_address_type = PUBLIC and s = initial_harness
      and retryable_set = "\<lambda>e. e = Timeout" and retries = 0, OF gatt0]
  note third = outgoing_connection_outcome [where envs = ?envs and i = 1
      and create_bond = False
      and random_address = "''F0:F1:F2:F3:F4:F5''" and public_address = "''00:11:22:33:44:55''"
      and ref_connection_address_type = PUBLIC
      and s = "initial_harness\<lparr>trace := [RefStartAdvertising PUBLIC,
                  DutConnectGattClient ''00:11:22:33:44:55'' PUBLIC],
                ref_advertising := True\<rparr>", OF gatt1]
  from first found start have a: "make_outgoing_connection_attempt ''F0:F1:F2:F3:F4:F5''
     ''00:11:22:33:44:55'' outgoing_ok RANDOM True initial_harness
     = (Inr example_link,
        initial_harness\<lparr>trace := [RefStartAdvertising RANDOM,
                                   DutCreateBond ''F0:F1:F2:F3:F4:F5'' RANDOM,
                                   RefStopAdvertising],
                         ref_advertising := False\<rparr>)"
    by simp
  from second silent start have b: "make_outgoing_connection_attempt ''F0:F1:F2:F3:F4:F5''
       ''00:11:22:33:44:55'' outgoing_silent PUBLIC False initial_harness
     = (Inl Timeout,
        initial_harness\<lparr>trace := [RefStartAdvertising PUBLIC,
                                   DutConnectGattClient ''00:11:22:33:44:55'' PUBLIC],
                         ref_advertising := True\<rparr>)"
    by simp
  from third found have c: "fst (make_outgoing_connection_attempt ''F0:F1:F2:F3:F4:F5''
       ''00:11:22:33:44:55'' outgoing_ok PUBLIC False
       (initial_harness\<lparr>trace := [RefStartAdvertising PUBLIC,
                  DutConnectGattClient ''00:11:22:33:44:55'' PUBLIC],
                ref_advertising := True\<rparr>)) = Inr example_link"
    by simp
  from b c have d: "fst (retry_on_exception (\<lambda>e. e = Timeout) (Suc 0)
            (\<lambda>j. make_outgoing_connection_attempt ''F0:F1:F2:F3:F4:F5'' ''00:11:22:33:44:55''
                    (if j = 0 then outgoing_silent else outgoing_ok) PUBLIC False)
            0 initial_harness)
     = Inr example_link"
    by simp
  from a b d show ?thesis
    by (intro conjI)
qed

section \<open>The incoming connection and its retries\<close>











end
